theory Spec2Isabelle
  imports Main "HOL-Library.Char_ord" "HOL-Library.List_Lexorder" "HOL-Library.Sublist"
begin

section \<open>Python values\<close>

text \<open>
  Strings are \<^typ>\<open>string\<close>; the locators, titles and theme names the operations
  receive are taken to be ASCII. \<open>str_int\<close> is Python's \<open>str\<close> on an \<open>int\<close>, as used
  by the f-strings of the handlers.
\<close>

fun str_nat :: "nat \<Rightarrow> string" where
  "str_nat n = (if n < 10 then [''0123456789'' ! n]
                else str_nat (n div 10) @ [''0123456789'' ! (n mod 10)])"

declare str_nat.simps [simp del]

definition str_int :: "int \<Rightarrow> string" where
  "str_int i = (if i < 0 then CHR ''-'' # str_nat (nat (- i)) else str_nat (nat i))"

text \<open>\<open>sep.join(xs)\<close>.\<close>

fun join :: "string \<Rightarrow> string list \<Rightarrow> string" where
  "join sep [] = []"
| "join sep [x] = x"
| "join sep (x # y # ys) = x @ sep @ join sep (y # ys)"

text \<open>\<open>str.lower()\<close> on ASCII.\<close>

definition lower_char :: "char \<Rightarrow> char" where
  "lower_char c =
     (case map_of (zip ''ABCDEFGHIJKLMNOPQRSTUVWXYZ'' ''abcdefghijklmnopqrstuvwxyz'') c of
        None \<Rightarrow> c | Some l \<Rightarrow> l)"

definition lower :: "string \<Rightarrow> string" where
  "lower s = map lower_char s"

text \<open>The truth value of a string or \<open>None\<close> in a condition.\<close>

definition truthy :: "string option \<Rightarrow> bool" where
  "truthy s = (case s of None \<Rightarrow> False | Some x \<Rightarrow> x \<noteq> [])"

text \<open>
  The values a handler passes to \<open>operation_completed.emit\<close>: a string, a list of
  dictionaries (\<open>get_service_items\<close>) or a list of strings (\<open>list_themes\<close>). A dictionary
  is an association list in insertion order.
\<close>

datatype pyval = PStr string | PInt int | PBool bool | PNone

type_synonym pydict = "(string \<times> pyval) list"

datatype payload = Str string | Dicts "pydict list" | Strs "string list"

text \<open>
  Exceptions: the class and \<open>str(e)\<close>. Every class here derives from \<open>Exception\<close>, so
  \<open>except Exception\<close> and a bare \<open>except\<close> catch all of them.
\<close>

datatype exc_class = TimeoutError | ValueError | FileNotFoundError | OtherException

datatype exc = Exc exc_class string

fun exc_str :: "exc \<Rightarrow> string" where
  "exc_str (Exc c m) = m"

text \<open>\<open>str.find(c)\<close> and \<open>str.rfind(c)\<close> for a character, \<open>None\<close> for \<open>-1\<close>.\<close>

fun find_char :: "char \<Rightarrow> string \<Rightarrow> nat option" where
  "find_char c [] = None"
| "find_char c (x # xs) =
     (if x = c then Some 0 else map_option Suc (find_char c xs))"

definition rfind_char :: "char \<Rightarrow> string \<Rightarrow> nat option" where
  "rfind_char c s =
     (case find_char c (rev s) of None \<Rightarrow> None | Some j \<Rightarrow> Some (length s - 1 - j))"

text \<open>\<open>str.split(c)\<close> for a character, and \<open>str.strip()\<close>.\<close>

fun split_char :: "char \<Rightarrow> string \<Rightarrow> string list" where
  "split_char c [] = [[]]"
| "split_char c (x # xs) =
     (if x = c then [] # split_char c xs
      else (case split_char c xs of [] \<Rightarrow> [[x]] | p # ps \<Rightarrow> (x # p) # ps))"

definition is_space :: "char \<Rightarrow> bool" where
  "is_space c = (c \<in> set [CHR '' '', CHR 0x09, CHR 0x0A, CHR 0x0B, CHR 0x0C, CHR 0x0D])"

definition strip :: "string \<Rightarrow> string" where
  "strip s = rev (dropWhile is_space (rev (dropWhile is_space s)))"

section \<open>Paths\<close>

text \<open>
  A \<open>pathlib.Path\<close> is kept as the string it was built from (POSIX flavour). \<open>name\<close> is
  the last component; \<open>suffix\<close> and \<open>stem\<close> split the name at its last dot when that dot
  is neither the first nor the last character.
\<close>

definition path_parts :: "string \<Rightarrow> string list" where
  "path_parts p = filter (\<lambda>c. c \<noteq> [] \<and> c \<noteq> ''.'') (split_char CHR ''/'' p)"

definition path_name :: "string \<Rightarrow> string" where
  "path_name p = (case path_parts p of [] \<Rightarrow> [] | c # cs \<Rightarrow> last (c # cs))"

definition path_suffix :: "string \<Rightarrow> string" where
  "path_suffix p =
     (let name = path_name p in
      case rfind_char CHR ''.'' name of
        None \<Rightarrow> []
      | Some i \<Rightarrow> if 0 < i \<and> i < length name - 1 then drop i name else [])"

definition path_stem :: "string \<Rightarrow> string" where
  "path_stem p =
     (let name = path_name p in
      case rfind_char CHR ''.'' name of
        None \<Rightarrow> name
      | Some i \<Rightarrow> if 0 < i \<and> i < length name - 1 then take i name else name)"

text \<open>\<open>directory / filename\<close> for a file name without a slash.\<close>

definition path_join :: "string \<Rightarrow> string \<Rightarrow> string" where
  "path_join d f = d @ ''/'' @ f"

section \<open>URLs\<close>

text \<open>
  \<open>urllib.parse.urlparse\<close>, as far as \<open>url_utils\<close> reads it: the scheme, the network
  location and the path, for a locator without control characters or leading blanks.
  It raises \<open>ValueError\<close> on a network location with an unmatched square bracket.
\<close>

definition scheme_chars :: string where
  "scheme_chars = ''abcdefghijklmnopqrstuvwxyzABCDEFGHIJKLMNOPQRSTUVWXYZ0123456789+-.''"

definition is_ascii_alpha :: "char \<Rightarrow> bool" where
  "is_ascii_alpha c = (c \<in> set ''abcdefghijklmnopqrstuvwxyzABCDEFGHIJKLMNOPQRSTUVWXYZ'')"

definition split_scheme :: "string \<Rightarrow> string \<times> string" where
  "split_scheme url =
     (case find_char CHR '':'' url of
        None \<Rightarrow> ([], url)
      | Some i \<Rightarrow>
          if 0 < i \<and> is_ascii_alpha (hd url) \<and> list_all (\<lambda>c. c \<in> set scheme_chars) (take i url)
          then (lower (take i url), drop (Suc i) url)
          else ([], url))"

definition split_netloc :: "string \<Rightarrow> string \<times> string" where
  "split_netloc url =
     (if take 2 url = ''//'' then
        (takeWhile (\<lambda>c. c \<notin> set ''/?#'') (drop 2 url),
         dropWhile (\<lambda>c. c \<notin> set ''/?#'') (drop 2 url))
      else ([], url))"

definition uses_params :: "string list" where
  "uses_params = ['''', ''ftp'', ''hdl'', ''prospero'', ''http'', ''imap'', ''https'', ''shttp'',
                  ''rtsp'', ''rtspu'', ''sip'', ''sips'', ''mms'', ''sftp'', ''tel'']"

definition split_params :: "string \<Rightarrow> string" where
  "split_params url =
     (case rfind_char CHR ''/'' url of
        None \<Rightarrow> takeWhile (\<lambda>c. c \<noteq> CHR '';'') url
      | Some j \<Rightarrow> take j url @ takeWhile (\<lambda>c. c \<noteq> CHR '';'') (drop j url))"

record parsed_url =
  url_scheme :: string
  url_netloc :: string
  url_path :: string

definition urlparse :: "string \<Rightarrow> exc + parsed_url" where
  "urlparse url =
     (let (scheme, rest) = split_scheme url;
          (netloc, rest') = split_netloc rest;
          path = takeWhile (\<lambda>c. c \<noteq> CHR ''?'') (takeWhile (\<lambda>c. c \<noteq> CHR ''#'') rest')
      in if (CHR ''['' \<in> set netloc) \<noteq> (CHR '']'' \<in> set netloc)
         then Inl (Exc ValueError ''Invalid IPv6 URL'')
         else Inr \<lparr>url_scheme = scheme, url_netloc = netloc,
                   url_path = (if scheme \<in> set uses_params then split_params path else path)\<rparr>)"

definition is_url :: "string \<Rightarrow> bool" where
  "is_url path_or_url =
     (case urlparse path_or_url of
        Inl e \<Rightarrow> False
      | Inr parsed \<Rightarrow> url_scheme parsed \<in> set [''http'', ''https'', ''ftp'', ''ftps''])"

definition content_type_map :: "(string \<times> string) list" where
  "content_type_map =
     [(''image/jpeg'', ''.jpg''), (''image/jpg'', ''.jpg''), (''image/png'', ''.png''),
      (''image/gif'', ''.gif''), (''image/bmp'', ''.bmp''), (''image/tiff'', ''.tiff''),
      (''image/tif'', ''.tiff''), (''image/webp'', ''.webp''), (''image/svg+xml'', ''.svg''),
      (''video/mp4'', ''.mp4''), (''video/avi'', ''.avi''), (''video/quicktime'', ''.mov''),
      (''video/x-msvideo'', ''.avi''), (''video/x-ms-wmv'', ''.wmv''), (''video/x-flv'', ''.flv''),
      (''video/webm'', ''.webm''), (''video/3gpp'', ''.3gp''), (''video/x-matroska'', ''.mkv''),
      (''audio/mpeg'', ''.mp3''), (''audio/mp3'', ''.mp3''), (''audio/wav'', ''.wav''),
      (''audio/wave'', ''.wav''), (''audio/x-wav'', ''.wav''), (''audio/ogg'', ''.ogg''),
      (''audio/flac'', ''.flac''), (''audio/aac'', ''.aac''), (''audio/mp4'', ''.m4a''),
      (''audio/x-ms-wma'', ''.wma''),
      (''application/pdf'', ''.pdf''),
      (''application/vnd.openxmlformats-officedocument.presentationml.presentation'', ''.pptx''),
      (''application/vnd.ms-powerpoint'', ''.ppt''),
      (''application/vnd.ms-powerpoint.presentation.macroEnabled.12'', ''.pptm''),
      (''application/vnd.oasis.opendocument.presentation'', ''.odp''),
      (''application/xml'', ''.osz''), (''text/xml'', ''.osz''), (''application/zip'', ''.osz'')]"

definition get_extension_from_content_type :: "string option \<Rightarrow> string" where
  "get_extension_from_content_type content_type =
     (if \<not> truthy content_type then ''.tmp''
      else case map_of content_type_map
                  (strip (hd (split_char CHR '';'' (the content_type)))) of
             None \<Rightarrow> ''.tmp'' | Some ext \<Rightarrow> ext)"

definition any_in :: "string list \<Rightarrow> string \<Rightarrow> bool" where
  "any_in patterns s = list_ex (\<lambda>pattern. sublist pattern s) patterns"

definition guess_extension_from_url_patterns :: "string \<Rightarrow> exc + string" where
  "guess_extension_from_url_patterns url =
     (let url_lower = lower url in
      if any_in [''image'', ''photo'', ''pic'', ''img''] url_lower then Inr ''.jpg''
      else if any_in [''video'', ''vid'', ''movie''] url_lower then Inr ''.mp4''
      else if any_in [''audio'', ''sound'', ''music''] url_lower then Inr ''.mp3''
      else if any_in [''presentation'', ''slide'', ''ppt''] url_lower then Inr ''.pdf''
      else if any_in [''service'', ''osz''] url_lower then Inr ''.osz''
      else case urlparse url of
             Inl e \<Rightarrow> Inl e
           | Inr parsed \<Rightarrow>
               (let domain = lower (url_netloc parsed) in
                if any_in [''unsplash'', ''pixabay'', ''pexels''] domain then Inr ''.jpg''
                else if any_in [''youtube'', ''vimeo''] domain then Inr ''.mp4''
                else if any_in [''soundcloud'', ''spotify''] domain then Inr ''.mp3''
                else Inr ''.tmp''))"

section \<open>The host application and the worker\<close>

text \<open>
  The host application (OpenLP's registry, service manager, theme manager, live
  controller and plugins) is an external collaborator. The state the handlers read and
  change is kept in the fields below; every call into the host is recorded in \<open>calls\<close>,
  and \<open>fault\<close> decides from the calls made so far (the last one being the call in
  progress) whether that call raises, and with what \<open>str(e)\<close>.
\<close>

record service_item =
  item_title :: string
  item_type :: string
  item_name :: string
  item_theme :: "string option"
  item_uid :: nat
  item_slides :: nat

record entry =
  entry_item :: service_item
  entry_order :: int

text \<open>
  A presentation document as \<open>_add_pdf_presentation\<close> probes it: whether it loads, and
  which of the methods and attributes it has (\<open>None\<close> when it has no such method, else what
  the method returns, with \<open>None\<close> for Python's \<open>None\<close>).
\<close>

record document =
  doc_loads :: bool
  doc_get_slide_count :: "int option option"
  doc_get_page_count :: "int option option"
  doc_pageCount :: "int option option"
  doc_slide_count :: "int option"
  doc_get_thumbnail_path :: "string option option"
  doc_get_sha256_file_hash :: "string option"

text \<open>
  What the handlers cannot decide themselves: which host call raises, what a HEAD request,
  a download or a conversion tool yields, which document the PDF controller opens.
\<close>

record env =
  fault :: "string list \<Rightarrow> string option"
  head_content_type :: "string \<Rightarrow> string option"
  url_hash :: "string \<Rightarrow> nat"
  download_result :: "string \<Rightarrow> bool"
  tempdir :: string
  libreoffice_result :: "string \<Rightarrow> string option"
  pptx_result :: "string \<Rightarrow> string option"
  documents :: "string \<Rightarrow> document option"
  generate_slide_data :: bool
  load_result :: "string \<Rightarrow> entry list"

datatype theme_level = Global | Service | Song | OtherLevel

text \<open>A \<open>QThread\<close> of the worker, with the \<open>ppt_path\<close> its \<open>started\<close> slot captured.\<close>

record qthread =
  thread_running :: bool
  thread_ppt_path :: string
  thread_job_done :: bool

record world =
  env :: env
  service_items :: "entry list"
  service_file_name :: string
  service_theme :: string
  themes :: "(string \<times> pydict) list"
  global_theme :: string
  live_item :: "service_item option"
  hot_reload :: bool
  level :: theme_level
  plugins :: "(string \<times> bool) list"
  pdf_controller :: "bool option"
  songs :: "(string \<times> nat) list"
  files :: "string list"
  calls :: "string list"
  current_result :: "payload option"
  result_ready :: bool
  emitted :: "payload list"
  threads :: "qthread list"
  conversion_thread :: "nat option"
  conversion_worker :: "nat option"
  pending_conversion_title :: "string option"

text \<open>\<open>theme_manager.get_theme_names()\<close>.\<close>

definition theme_names :: "world \<Rightarrow> string list" where
  "theme_names w = map fst (themes w)"

text \<open>
  A statement of a handler runs in a state and either returns a value or raises; the
  state changes made before a raise stay.
\<close>

type_synonym 'a M = "world \<Rightarrow> (exc + 'a) \<times> world"

definition returnM :: "'a \<Rightarrow> 'a M" where
  "returnM x w = (Inr x, w)"

definition raiseM :: "exc \<Rightarrow> 'a M" where
  "raiseM e w = (Inl e, w)"

definition bindM :: "'a M \<Rightarrow> ('a \<Rightarrow> 'b M) \<Rightarrow> 'b M" where
  "bindM m f w = (case m w of (Inl e, w') \<Rightarrow> (Inl e, w') | (Inr x, w') \<Rightarrow> f x w')"

definition thenM :: "unit M \<Rightarrow> 'b M \<Rightarrow> 'b M" where
  "thenM m k = bindM m (\<lambda>_. k)"

text \<open>\<open>try: m except Exception as e: h e\<close>.\<close>

definition try_except :: "'a M \<Rightarrow> (exc \<Rightarrow> 'a M) \<Rightarrow> 'a M" where
  "try_except m h w = (case m w of (Inl e, w') \<Rightarrow> h e w' | (Inr x, w') \<Rightarrow> (Inr x, w'))"

text \<open>A call into the host application: recorded, and raising when \<open>fault\<close> says so.\<close>

definition collab :: "string \<Rightarrow> unit M" where
  "collab nm w =
     (let w' = w\<lparr>calls := calls w @ [nm]\<rparr>
      in case fault (env w) (calls w') of
           None \<Rightarrow> (Inr (), w')
         | Some m \<Rightarrow> (Inl (Exc OtherException m), w'))"

definition modify :: "(world \<Rightarrow> world) \<Rightarrow> unit M" where
  "modify f w = (Inr (), f w)"

definition gets :: "(world \<Rightarrow> 'a) \<Rightarrow> 'a M" where
  "gets f w = (Inr (f w), w)"

text \<open>
  \<open>_handle_result\<close> is the slot connected to \<open>operation_completed\<close>; both live on the
  privileged thread, so \<open>operation_completed.emit(result)\<close> runs it at once. \<open>emitted\<close>
  is the history of the emissions.
\<close>

definition handle_result :: "payload \<Rightarrow> world \<Rightarrow> world" where
  "handle_result result w = w\<lparr>current_result := Some result, result_ready := True\<rparr>"

definition emit :: "payload \<Rightarrow> unit M" where
  "emit result w = (Inr (), handle_result result (w\<lparr>emitted := emitted w @ [result]\<rparr>))"

section \<open>Handlers\<close>

definition create_service :: "unit M" where
  "create_service =
     try_except
       (thenM (collab ''Registry.get(service_manager)'')
       (thenM (collab ''service_manager.new_file'')
       (thenM (modify (\<lambda>w. w\<lparr>service_items := []\<rparr>))
       (thenM (collab ''service_manager.repaint_service_list'')
              (emit (Str ''New service created successfully''))))))
       (\<lambda>e. emit (Str (''Error creating new service: '' @ exc_str e)))"

definition item_dict :: "entry \<Rightarrow> pydict" where
  "item_dict item =
     [(''title'', PStr (item_title (entry_item item))),
      (''type'', PStr (item_type (entry_item item))),
      (''plugin'', PStr (item_name (entry_item item))),
      (''order'', PInt (entry_order item))]"

definition get_service_items :: "unit M" where
  "get_service_items =
     try_except
       (thenM (collab ''Registry.get(service_manager)'')
       (thenM (collab ''service_manager.service_items'')
       (bindM (gets service_items) (\<lambda>items.
              emit (Dicts (map item_dict items))))))
       (\<lambda>e. emit (Dicts [[(''error'', PStr (exc_str e))]]))"

definition go_live :: "int \<Rightarrow> unit M" where
  "go_live item_index =
     try_except
       (thenM (collab ''Registry.get(service_manager)'')
       (thenM (collab ''service_manager.set_item'')
       (thenM (collab ''service_manager.make_live'')
              (emit (Str (''Item '' @ str_int item_index @ '' is now live''))))))
       (\<lambda>e. emit (Str (''Error going live: '' @ exc_str e)))"

definition quote :: "string \<Rightarrow> string" where
  "quote s = [CHR 0x27] @ s @ [CHR 0x27]"

definition delete_theme :: "string \<Rightarrow> unit M" where
  "delete_theme theme_name =
     try_except
       (thenM (collab ''Registry.get(theme_manager)'')
       (thenM (collab ''theme_manager.get_theme_names'')
       (bindM (gets theme_names) (\<lambda>names.
         if theme_name \<notin> set names then
           emit (Str (''Theme '' @ quote theme_name @ '' not found''))
         else if theme_name = ''Default'' then
           emit (Str (''Cannot delete the default theme '' @ quote ''Default''))
         else
           thenM (collab ''theme_manager.global_theme'')
          (bindM (gets global_theme) (\<lambda>global.
             if theme_name = global then
               emit (Str (''Cannot delete the global theme '' @ quote theme_name
                          @ ''. Please set a different global theme first.''))
             else
               thenM (collab ''theme_manager.delete_theme'')
              (thenM (modify (\<lambda>w. w\<lparr>themes := filter (\<lambda>t. fst t \<noteq> theme_name) (themes w)\<rparr>))
              (thenM (collab ''theme_manager.load_themes'')
                     (emit (Str (''Theme '' @ quote theme_name @ '' deleted successfully'')))
              ))
          ))
       ))))
       (\<lambda>e. emit (Str (''Error deleting theme: '' @ exc_str e)))"

text \<open>
  \<open>set_item_theme\<close>: the argument \<open>theme_name\<close> is a Python string or \<open>None\<close>
  (\<open>clear_item_theme\<close> passes \<open>None\<close>).
\<close>

text \<open>
  The inner \<open>try ... except: pass\<close> of \<open>set_item_theme\<close>: the live item is refreshed
  when it is the item changed and hot reload is on; a fault here is dropped.
\<close>

definition refresh_if_live :: "service_item \<Rightarrow> unit M" where
  "refresh_if_live service_item =
     try_except
       (thenM (collab ''Registry.get(live_controller)'')
       (thenM (collab ''live_controller.service_item'')
       (bindM (gets live_item) (\<lambda>live.
          case live of
            None \<Rightarrow> returnM ()
          | Some l \<Rightarrow>
              if item_uid service_item = item_uid l then
                thenM (collab ''Registry.get(settings)'')
               (thenM (collab ''settings.value(themes/hot reload)'')
               (bindM (gets hot_reload) (\<lambda>hot.
                  if hot then collab ''live_controller.refresh_service_item''
                  else returnM ())))
              else returnM ()))))
       (\<lambda>e. returnM ())"

text \<open>
  The part of the body of \<open>set_item_theme\<close> after \<open>theme_to_set\<close> is chosen.
  \<open>service_item.update_theme\<close> stores the theme in the item.
\<close>

definition update_theme_at :: "nat \<Rightarrow> string option \<Rightarrow> world \<Rightarrow> world" where
  "update_theme_at i t w =
     w\<lparr>service_items :=
         (service_items w)[i := (service_items w ! i)
            \<lparr>entry_item := (entry_item (service_items w ! i))\<lparr>item_theme := t\<rparr>\<rparr>]\<rparr>"

definition apply_item_theme :: "int \<Rightarrow> service_item \<Rightarrow> string option \<Rightarrow> unit M" where
  "apply_item_theme item_index service_item theme_to_set =
     thenM (collab ''service_item.update_theme'')
    (thenM (modify (update_theme_at (nat item_index) theme_to_set))
    (thenM (collab ''service_manager.repaint_service_list'')
    (thenM (collab ''service_manager.set_modified'')
    (thenM (refresh_if_live service_item)
       (if truthy theme_to_set then
          emit (Str (''Item '' @ str_int item_index @ '' ('' @ quote (item_title service_item)
                     @ '') theme set to '' @ quote (the theme_to_set)))
        else
          emit (Str (''Item '' @ str_int item_index @ '' ('' @ quote (item_title service_item)
                     @ '') theme cleared (using service/global theme)'')))))))"

definition set_item_theme :: "int \<Rightarrow> string option \<Rightarrow> unit M" where
  "set_item_theme item_index theme_name =
     try_except
       (thenM (collab ''Registry.get(service_manager)'')
       (thenM (collab ''service_manager.service_items'')
       (bindM (gets service_items) (\<lambda>items.
          if item_index < 0 \<or> item_index \<ge> int (length items) then
            emit (Str (''Invalid item index: '' @ str_int item_index))
          else
            let service_item = entry_item (items ! nat item_index) in
            if truthy theme_name \<and> lower (the theme_name) \<noteq> ''none'' then
              thenM (collab ''Registry.get(theme_manager)'')
             (thenM (collab ''theme_manager.get_theme_names'')
             (bindM (gets theme_names) (\<lambda>names.
                if the theme_name \<notin> set names then
                  emit (Str (''Theme '' @ quote (the theme_name) @ '' not found''))
                else apply_item_theme item_index service_item theme_name)))
            else apply_item_theme item_index service_item None))))
       (\<lambda>e. emit (Str (''Error setting item theme: '' @ exc_str e)))"

definition clear_item_theme :: "int \<Rightarrow> unit M" where
  "clear_item_theme item_index =
     try_except
       (set_item_theme item_index None)
       (\<lambda>e. emit (Str (''Error clearing item theme: '' @ exc_str e)))"

section \<open>Locator resolution\<close>

definition get_content_type_from_url :: "env \<Rightarrow> string \<Rightarrow> string option" where
  "get_content_type_from_url e url = map_option lower (head_content_type e url)"

definition hash_name :: "env \<Rightarrow> string \<Rightarrow> string \<Rightarrow> string" where
  "hash_name e label url = label @ str_nat (url_hash e url mod 10000)"

definition base_name_for :: "env \<Rightarrow> string \<Rightarrow> string \<Rightarrow> string" where
  "base_name_for e url extension =
     (if extension = ''.jpg'' \<or> (prefix ''.'' extension
           \<and> drop 1 extension \<in> set [''png'', ''gif'', ''bmp'', ''webp'', ''svg''])
      then hash_name e ''image_'' url
      else if prefix ''.'' extension
           \<and> drop 1 extension \<in> set [''mp4'', ''avi'', ''mov'', ''mkv'', ''wmv'', ''flv'', ''webm'']
      then hash_name e ''video_'' url
      else if prefix ''.'' extension
           \<and> drop 1 extension \<in> set [''mp3'', ''wav'', ''ogg'', ''flac'', ''aac'', ''m4a'', ''wma'']
      then hash_name e ''audio_'' url
      else if extension \<in> set [''.pptx'', ''.ppt'', ''.pdf''] then hash_name e ''presentation_'' url
      else if extension = ''.osz'' then hash_name e ''service_'' url
      else hash_name e ''download_'' url)"

definition get_filename_from_url :: "env \<Rightarrow> string \<Rightarrow> string" where
  "get_filename_from_url e url =
     (case urlparse url of
        Inl x \<Rightarrow> hash_name e ''download_'' url @ ''.tmp''
      | Inr parsed \<Rightarrow>
          let filename = path_name (url_path parsed) in
          if filename \<noteq> [] \<and> CHR ''.'' \<in> set filename then filename
          else
            let extension0 = get_extension_from_content_type (get_content_type_from_url e url) in
            case (if extension0 = ''.tmp'' then guess_extension_from_url_patterns url
                  else Inr extension0) of
              Inl x \<Rightarrow> hash_name e ''download_'' url @ ''.tmp''
            | Inr extension \<Rightarrow>
                (if filename \<noteq> [] then filename else base_name_for e url extension)
                @ extension)"

definition download_to :: "string \<Rightarrow> string \<Rightarrow> bool \<Rightarrow> string M" where
  "download_to url download_path success =
     try_except
       (thenM (collab ''download_file'')
          (if success then
             thenM (modify (\<lambda>w. w\<lparr>files := files w @ [download_path]\<rparr>))
                   (returnM download_path)
           else raiseM (Exc OtherException (''Failed to download file from '' @ url))))
       (\<lambda>x. thenM (modify (\<lambda>w. w\<lparr>files := removeAll download_path (files w)\<rparr>))
                 (raiseM (Exc OtherException
                    (''Failed to download '' @ url @ '': '' @ exc_str x))))"

definition resolve_file_path :: "string \<Rightarrow> string M" where
  "resolve_file_path file_path_or_url =
     (if file_path_or_url = [] then
        raiseM (Exc ValueError ''file_path_or_url cannot be empty'')
      else if is_url file_path_or_url then
        bindM (gets env) (\<lambda>e.
        thenM (collab ''temp_dir.mkdir'')
              (download_to file_path_or_url
                 (path_join (path_join (tempdir e) ''openlp_mcp_downloads'')
                            (get_filename_from_url e file_path_or_url))
                 (download_result e file_path_or_url)))
      else
        bindM (gets files) (\<lambda>fs.
          if file_path_or_url \<in> set fs then returnM file_path_or_url
          else raiseM (Exc FileNotFoundError
                 (''Local file not found: '' @ file_path_or_url))))"

section \<open>Adding media\<close>

text \<open>
  \<open>Registry().get('plugin_manager').get_plugin_by_name(name)\<close> and the test
  \<open>not plugin or not plugin.is_active()\<close>, negated.
\<close>

definition plugin_available :: "string \<Rightarrow> bool M" where
  "plugin_available nm =
     thenM (collab ''Registry.get(plugin_manager)'')
    (thenM (collab ''plugin_manager.get_plugin_by_name'')
    (bindM (gets plugins) (\<lambda>ps.
       case map_of ps nm of
         None \<Rightarrow> returnM False
       | Some active \<Rightarrow> thenM (collab ''plugin.is_active'') (returnM active))))"

definition new_uid :: "world \<Rightarrow> nat" where
  "new_uid w = Suc (foldr max (map (\<lambda>x. item_uid (entry_item x)) (service_items w)) 0)"

text \<open>
  \<open>Registry().get('service_manager')\<close>, \<open>add_service_item\<close> and \<open>repaint_service_list\<close>:
  the item is appended to the service.
\<close>

definition add_service_item :: "service_item \<Rightarrow> unit M" where
  "add_service_item service_item =
     thenM (collab ''Registry.get(service_manager)'')
    (thenM (collab ''service_manager.add_service_item'')
    (thenM (modify (\<lambda>w. w\<lparr>service_items := service_items w @
               [\<lparr>entry_item = service_item\<lparr>item_uid := new_uid w\<rparr>,
                 entry_order = int (length (service_items w)) + 1\<rparr>]\<rparr>))
           (collab ''service_manager.repaint_service_list'')))"

definition title_or :: "string \<Rightarrow> string \<Rightarrow> string" where
  "title_or title fallback = (if title \<noteq> [] then title else fallback)"

definition add_image :: "string \<Rightarrow> string \<Rightarrow> unit M" where
  "add_image file_path title =
     bindM (plugin_available ''images'') (\<lambda>ok.
       if \<not> ok then emit (Str ''Images plugin not available'')
       else
         thenM (collab ''ServiceItem'')
         (thenM (collab ''service_item.add_icon'')
         (thenM (collab ''service_item.add_from_image'')
         (thenM (collab ''sha256_file_hash'')
         (thenM (collab ''service_item.add_capability'')
         (thenM (add_service_item
            \<lparr>item_title = title_or title (path_name file_path),
             item_type = ''ServiceItemType.Image'', item_name = ''images'',
             item_theme = None, item_uid = 0, item_slides = 1\<rparr>)
         (emit (Str (''Image '' @ quote (title_or title (path_name file_path))
                     @ '' added to service'')))))))))"

definition add_video_audio :: "string \<Rightarrow> string \<Rightarrow> bool \<Rightarrow> unit M" where
  "add_video_audio file_path title is_video =
     bindM (plugin_available ''media'') (\<lambda>ok.
       if \<not> ok then emit (Str ''Media plugin not available'')
       else
         thenM (collab ''ServiceItem'')
         (thenM (collab ''service_item.add_icon'')
         (thenM (collab ''service_item.add_from_command'')
         (thenM (collab ''service_item.add_capability'')
         (thenM (add_service_item
            \<lparr>item_title = title_or title (path_name file_path),
             item_type = ''ServiceItemType.Command'', item_name = ''media'',
             item_theme = None, item_uid = 0, item_slides = 1\<rparr>)
         (emit (Str ((if is_video then ''Video'' else ''Audio'') @ '' ''
                     @ quote (title_or title (path_name file_path))
                     @ '' added to service''))))))))"

section \<open>Presentations\<close>

text \<open>\<open>count is not None and count > 0\<close>, else the default of one slide.\<close>

definition slide_count_of :: "int option \<Rightarrow> int" where
  "slide_count_of r = (case r of None \<Rightarrow> 1 | Some c \<Rightarrow> if c > 0 then c else 1)"

definition probe_slide_count :: "document \<Rightarrow> int M" where
  "probe_slide_count doc =
     try_except
       (case doc_get_slide_count doc of
          Some r \<Rightarrow> thenM (collab ''doc.get_slide_count'') (returnM (slide_count_of r))
        | None \<Rightarrow>
           (case doc_get_page_count doc of
              Some r \<Rightarrow> thenM (collab ''doc.get_page_count'') (returnM (slide_count_of r))
            | None \<Rightarrow>
               (case doc_pageCount doc of
                  Some r \<Rightarrow> thenM (collab ''doc.pageCount'') (returnM (slide_count_of r))
                | None \<Rightarrow>
                    returnM (case doc_slide_count doc of
                               None \<Rightarrow> 1
                             | Some c \<Rightarrow> if c \<noteq> 0 then c else 1))))
       (\<lambda>e. returnM 1)"

text \<open>
  One round of the loop over the slides: the slide is added with its thumbnail and hash,
  or, when that raises, without them, or, when that raises too, not at all.
\<close>

definition add_slide :: "document \<Rightarrow> service_item \<Rightarrow> service_item M" where
  "add_slide doc si =
     try_except
       (thenM (case doc_get_thumbnail_path doc of
                 None \<Rightarrow> returnM ()
               | Some t \<Rightarrow> collab ''doc.get_thumbnail_path'')
       (thenM (case doc_get_sha256_file_hash doc of
                 None \<Rightarrow> returnM ()
               | Some h \<Rightarrow> collab ''doc.get_sha256_file_hash'')
       (thenM (collab ''service_item.add_from_command'')
              (returnM (si\<lparr>item_slides := Suc (item_slides si)\<rparr>)))))
       (\<lambda>e. try_except
                (thenM (collab ''service_item.add_from_command'')
                       (returnM (si\<lparr>item_slides := Suc (item_slides si)\<rparr>)))
                (\<lambda>e. returnM si))"

fun add_slides :: "document \<Rightarrow> nat \<Rightarrow> service_item \<Rightarrow> service_item M" where
  "add_slides doc 0 si = returnM si"
| "add_slides doc (Suc n) si = bindM (add_slide doc si) (add_slides doc n)"

definition close_presentation :: "unit M" where
  "close_presentation = try_except (collab ''doc.close_presentation'') (\<lambda>e. returnM ())"

text \<open>The part of \<open>_add_pdf_presentation\<close> after the document has loaded.\<close>

definition add_loaded_presentation :: "document \<Rightarrow> string \<Rightarrow> string \<Rightarrow> unit M" where
  "add_loaded_presentation doc file_path title =
     thenM (collab ''ServiceItem'')
     (thenM (collab ''service_item.add_icon'')
     (thenM (collab ''service_item.add_capability'')
     (bindM (probe_slide_count doc) (\<lambda>slide_count.
        if slide_count > 0 then
          bindM (add_slides doc (nat slide_count)
                   \<lparr>item_title = title_or title (path_name file_path),
              item_type = ''ServiceItemType.Command'', item_name = ''presentations'',
              item_theme = None, item_uid = 0, item_slides = 0\<rparr>)
            (\<lambda>si.
               thenM (add_service_item si)
              (thenM close_presentation
                     (emit (Str (''Presentation '' @ quote (item_title si) @ '' with ''
                                 @ str_int slide_count @ '' slides added to service'')))))
        else
          thenM close_presentation
                (emit (Str (''No slides found in presentation: '' @ path_name file_path)))))))"

definition add_pdf_presentation :: "string \<Rightarrow> string \<Rightarrow> unit M" where
  "add_pdf_presentation file_path title =
     try_except
       (bindM (plugin_available ''presentations'') (\<lambda>ok.
          if \<not> ok then emit (Str ''Presentations plugin not available'')
          else
            thenM (collab ''presentations_plugin.controllers'')
           (bindM (gets pdf_controller) (\<lambda>pc.
              case pc of
                None \<Rightarrow>
                  emit (Str ''PDF controller not available - please ensure PDF support is enabled'')
              | Some enabled \<Rightarrow>
                  thenM (collab ''controller.enabled'')
                    (if \<not> enabled then
                       emit (Str ''PDF controller not available - please ensure PDF support is enabled'')
                     else
                       thenM (collab ''controller.add_document'')
                      (bindM (gets (\<lambda>w. documents (env w) file_path)) (\<lambda>d.
                         case d of
                           None \<Rightarrow>
                             emit (Str (''Failed to create PDF document for: ''
                                        @ path_name file_path))
                         | Some doc \<Rightarrow>
                             thenM (collab ''doc.load_presentation'')
                               (if \<not> doc_loads doc then
                                  emit (Str (''Failed to load presentation: ''
                                             @ path_name file_path))
                                else add_loaded_presentation doc file_path title))))))))
       (\<lambda>e. emit (Str (''Error adding PDF presentation: '' @ exc_str e)))"

section \<open>The conversion of PowerPoint files\<close>

text \<open>
  \<open>ConversionWorker\<close>: the two conversion routes catch every exception themselves; what
  they leave behind is decided by the environment. The worker answers with one of its two
  signals.
\<close>

datatype conversion_signal = conversion_completed string string | conversion_failed string

definition convert_ppt_to_pdf :: "string \<Rightarrow> string option M" where
  "convert_ppt_to_pdf ppt_path =
     bindM (gets env) (\<lambda>e.
       case libreoffice_result e ppt_path of
         Some pdf \<Rightarrow> thenM (modify (\<lambda>w. w\<lparr>files := files w @ [pdf]\<rparr>)) (returnM (Some pdf))
       | None \<Rightarrow>
          (case pptx_result e ppt_path of
             Some pdf \<Rightarrow> thenM (modify (\<lambda>w. w\<lparr>files := files w @ [pdf]\<rparr>)) (returnM (Some pdf))
           | None \<Rightarrow> returnM None))"

definition convert_powerpoint :: "string \<Rightarrow> string \<Rightarrow> conversion_signal M" where
  "convert_powerpoint ppt_path title =
     try_except
       (bindM (convert_ppt_to_pdf ppt_path) (\<lambda>pdf_path.
          case pdf_path of
            Some pdf \<Rightarrow> returnM (conversion_completed pdf title)
          | None \<Rightarrow> returnM (conversion_failed ''Failed to convert PowerPoint file to PDF'')))
       (\<lambda>e. returnM (conversion_failed (''Error during conversion: '' @ exc_str e)))"

text \<open>
  The worker's side. Qt's own primitives (signals, \<open>QThread\<close>'s \<open>isRunning\<close>, \<open>quit\<close>,
  \<open>wait\<close> and \<open>start\<close>) are taken not to raise. \<open>quit\<close> followed by \<open>wait\<close> leaves the
  thread stopped.
\<close>

definition thread_is_running :: "world \<Rightarrow> nat \<Rightarrow> bool" where
  "thread_is_running w i = (i < length (threads w) \<and> thread_running (threads w ! i))"

definition stop_thread :: "nat \<Rightarrow> world \<Rightarrow> world" where
  "stop_thread i w =
     w\<lparr>threads := (threads w)[i := (threads w ! i)\<lparr>thread_running := False\<rparr>]\<rparr>"

definition start_powerpoint_conversion :: "string \<Rightarrow> string \<Rightarrow> unit M" where
  "start_powerpoint_conversion ppt_path title =
     try_except
       (thenM (bindM (gets conversion_thread) (\<lambda>ct.
                 case ct of
                   None \<Rightarrow> returnM ()
                 | Some i \<Rightarrow>
                     bindM (gets (\<lambda>w. thread_is_running w i)) (\<lambda>running.
                       if running then modify (stop_thread i) else returnM ())))
       (thenM (modify (\<lambda>w. w\<lparr>pending_conversion_title :=
                 Some (title_or title (path_stem ppt_path @ '' (converted)''))\<rparr>))
              (modify (\<lambda>w. w\<lparr>threads := threads w @
                          [\<lparr>thread_running = True, thread_ppt_path = ppt_path,
                            thread_job_done = False\<rparr>],
                        conversion_thread := Some (length (threads w)),
                        conversion_worker := Some (length (threads w))\<rparr>))))
       (\<lambda>e. emit (Str (''Error starting PowerPoint conversion: '' @ exc_str e)))"

definition cleanup_conversion_thread :: "unit M" where
  "cleanup_conversion_thread =
     bindM (gets conversion_thread) (\<lambda>ct.
       case ct of
         None \<Rightarrow> returnM ()
       | Some i \<Rightarrow>
           modify (\<lambda>w. (stop_thread i w)\<lparr>conversion_thread := None,
                                          conversion_worker := None\<rparr>))"

definition on_conversion_completed :: "string \<Rightarrow> string \<Rightarrow> unit M" where
  "on_conversion_completed pdf_path title =
     try_except
       (thenM (add_pdf_presentation pdf_path title) cleanup_conversion_thread)
       (\<lambda>e. emit (Str (''Error adding converted presentation: '' @ exc_str e)))"

definition on_conversion_failed :: "string \<Rightarrow> unit M" where
  "on_conversion_failed error_message =
     thenM (emit (Str error_message)) cleanup_conversion_thread"

definition powerpoint_extensions :: "string list" where
  "powerpoint_extensions = [''.pptx'', ''.ppt'', ''.pps'', ''.ppsx'']"

definition add_presentation :: "string \<Rightarrow> string \<Rightarrow> unit M" where
  "add_presentation file_path title =
     try_except
       (if lower (path_suffix file_path) \<in> set powerpoint_extensions
        then start_powerpoint_conversion file_path title
        else add_pdf_presentation file_path title)
       (\<lambda>e. emit (Str (''Error adding presentation: '' @ exc_str e)))"

section \<open>The handler \<open>add_media\<close>\<close>

definition image_extensions :: "string list" where
  "image_extensions =
     [''.jpg'', ''.jpeg'', ''.png'', ''.bmp'', ''.gif'', ''.tiff'', ''.tif'', ''.webp'', ''.svg'']"

definition video_extensions :: "string list" where
  "video_extensions =
     [''.mp4'', ''.avi'', ''.mov'', ''.mkv'', ''.wmv'', ''.flv'', ''.webm'', ''.m4v'', ''.3gp'']"

definition audio_extensions :: "string list" where
  "audio_extensions = [''.mp3'', ''.wav'', ''.ogg'', ''.flac'', ''.aac'', ''.m4a'', ''.wma'']"

definition presentation_extensions :: "string list" where
  "presentation_extensions = [''.pdf'', ''.pptx'', ''.ppt'', ''.pps'', ''.ppsx'', ''.odp'']"

definition supported :: string where
  "supported =
     ''images ('' @ join '', '' (sort image_extensions)
     @ ''), videos ('' @ join '', '' (sort video_extensions)
     @ ''), audio ('' @ join '', '' (sort audio_extensions)
     @ ''), presentations ('' @ join '', '' (sort presentation_extensions) @ '')''"

definition add_media :: "string \<Rightarrow> string \<Rightarrow> unit M" where
  "add_media file_path title =
     try_except
       (bindM (resolve_file_path file_path) (\<lambda>resolved_path.
          let extension = lower (path_suffix resolved_path);
              title' = (if is_url file_path \<and> title = []
                        then path_name resolved_path @ '' (downloaded)'' else title)
          in if extension \<in> set image_extensions then add_image resolved_path title'
             else if extension \<in> set video_extensions \<or> extension \<in> set audio_extensions
               then add_video_audio resolved_path title' (extension \<in> set video_extensions)
             else if extension \<in> set presentation_extensions
               then add_presentation resolved_path title'
             else emit (Str (''Unsupported format: '' @ extension @ ''. Supported: ''
                             @ supported))))
       (\<lambda>e. emit (Str (''Error adding media: '' @ exc_str e)))"

section \<open>The remaining handlers\<close>

definition load_service :: "string \<Rightarrow> unit M" where
  "load_service file_path =
     try_except
       (bindM (resolve_file_path file_path) (\<lambda>resolved_path.
          thenM (collab ''Registry.get(service_manager)'')
          (thenM (collab ''service_manager.load_file'')
          (thenM (modify (\<lambda>w. w\<lparr>service_items := load_result (env w) resolved_path\<rparr>))
          (if is_url file_path then
               emit (Str (''Service downloaded from '' @ file_path @ '' and loaded successfully''))
             else emit (Str (''Service loaded from '' @ file_path)))))))
       (\<lambda>e. emit (Str (''Error loading service: '' @ exc_str e)))"

definition save_service :: "string \<Rightarrow> unit M" where
  "save_service file_path =
     try_except
       (thenM (collab ''Registry.get(service_manager)'')
        (thenM (if file_path \<noteq> [] then
                 thenM (collab ''service_manager.set_file_name'')
                       (modify (\<lambda>w. w\<lparr>service_file_name := file_path\<rparr>))
               else returnM ())
        (thenM (collab ''service_manager.decide_save_method'')
        (emit (Str (''Service saved'' @ (if file_path \<noteq> [] then '' to '' @ file_path else [])))))))
       (\<lambda>e. emit (Str (''Error saving service: '' @ exc_str e)))"

text \<open>\<open>lyrics.split('\n\n')\<close>, the first argument being the piece read so far, reversed.\<close>

fun split_double_newline :: "string \<Rightarrow> string \<Rightarrow> string list" where
  "split_double_newline acc [] = [rev acc]"
| "split_double_newline acc [c] = [rev (c # acc)]"
| "split_double_newline acc (c # d # cs) =
     (if c = CHR 0x0A \<and> d = CHR 0x0A then rev acc # split_double_newline [] cs
      else split_double_newline (c # acc) (d # cs))"

fun add_verses :: "string list \<Rightarrow> nat \<Rightarrow> nat M" where
  "add_verses [] n = returnM n"
| "add_verses (verse # verses) n =
     (if strip verse \<noteq> [] then
        thenM (collab ''service_item.add_from_text'') (add_verses verses (Suc n))
      else add_verses verses n)"

definition create_song_placeholder :: "string \<Rightarrow> string \<Rightarrow> unit M" where
  "create_song_placeholder title lyrics =
     thenM (collab ''ServiceItem'')
    (thenM (collab ''service_item.add_icon'')
    (bindM (if lyrics \<noteq> [] then add_verses (split_double_newline [] lyrics) 0
            else thenM (collab ''service_item.add_from_text'') (returnM 1))
       (\<lambda>n. add_service_item
               \<lparr>item_title = title, item_type = ''ServiceItemType.Text'',
                item_name = ''songs'', item_theme = None, item_uid = 0,
                item_slides = n\<rparr>)))"

text \<open>The branch of \<open>add_song\<close> for a song found in the database, with its inner \<open>try\<close>.\<close>

definition add_existing_song :: "string \<Rightarrow> string \<Rightarrow> unit M" where
  "add_existing_song title lyrics =
     try_except
       (thenM (collab ''QListWidgetItem'')
        (thenM (collab ''ServiceItem'')
        (thenM (collab ''service_item.add_icon'')
        (thenM (collab ''media_item.generate_slide_data'')
        (bindM (gets (\<lambda>w. generate_slide_data (env w))) (\<lambda>ok.
                 if ok then
                   thenM (add_service_item
                            \<lparr>item_title = title, item_type = ''ServiceItemType.Text'',
                             item_name = ''songs'', item_theme = None, item_uid = 0,
                             item_slides = 1\<rparr>)
                         (emit (Str (''Song '' @ quote title @ '' added from database'')))
                 else
                   thenM (create_song_placeholder title lyrics)
                         (emit (Str (''Song '' @ quote title
                                     @ '' found but failed to load - added placeholder'')))))))))
       (\<lambda>e. thenM (create_song_placeholder title lyrics)
                 (emit (Str (''Song '' @ quote title
                             @ '' found but failed to load - added placeholder''))))"

definition add_song :: "string \<Rightarrow> string \<Rightarrow> string \<Rightarrow> unit M" where
  "add_song title author lyrics =
     try_except
       (bindM (plugin_available ''songs'') (\<lambda>ok.
          if \<not> ok then emit (Str ''Songs plugin not available'')
          else
            thenM (collab ''songs_plugin.manager.get_all_objects'')
           (bindM (gets songs) (\<lambda>db.
              if filter (\<lambda>song. fst song = title) db \<noteq> [] then add_existing_song title lyrics
              else
                thenM (create_song_placeholder title lyrics)
                      (emit (Str (''Song '' @ quote title
                                  @ '' not found in database - added placeholder'')))))))
       (\<lambda>e. emit (Str (''Error adding song: '' @ exc_str e)))"

definition add_custom_slide :: "string \<Rightarrow> string \<Rightarrow> unit M" where
  "add_custom_slide title content =
     try_except
       (thenM (collab ''Registry.get(plugin_manager)'')
        (thenM (collab ''plugin_manager.get_plugin_by_name'')
        (thenM (collab ''ServiceItem'')
        (thenM (collab ''service_item.add_icon'')
        (thenM (collab ''service_item.add_from_text'')
        (thenM (add_service_item
                  \<lparr>item_title = title, item_type = ''ServiceItemType.Text'',
                   item_name = ''custom'', item_theme = None, item_uid = 0, item_slides = 1\<rparr>)
        (emit (Str (''Custom slide '' @ quote title @ '' added to service'')))))))))
       (\<lambda>e. emit (Str (''Error adding custom slide: '' @ exc_str e)))"

definition next_slide :: "unit M" where
  "next_slide =
     try_except
       (thenM (collab ''Registry.get(live_controller)'')
       (thenM (collab ''live_controller.on_slide_selected_next'')
              (emit (Str ''Moved to next slide''))))
       (\<lambda>e. emit (Str (''Error moving to next slide: '' @ exc_str e)))"

definition previous_slide :: "unit M" where
  "previous_slide =
     try_except
       (thenM (collab ''Registry.get(live_controller)'')
       (thenM (collab ''live_controller.on_slide_selected_previous'')
              (emit (Str ''Moved to previous slide''))))
       (\<lambda>e. emit (Str (''Error moving to previous slide: '' @ exc_str e)))"

definition list_themes :: "unit M" where
  "list_themes =
     try_except
       (thenM (collab ''Registry.get(theme_manager)'')
       (thenM (collab ''theme_manager.get_theme_names'')
       (bindM (gets theme_names) (\<lambda>names. emit (Strs names)))))
       (\<lambda>e. emit (Strs [''Error: '' @ exc_str e]))"

definition set_theme :: "string \<Rightarrow> unit M" where
  "set_theme theme_name =
     try_except
       (thenM (collab ''Registry.get(service_manager)'')
       (thenM (collab ''service_manager.service_theme'')
       (thenM (modify (\<lambda>w. w\<lparr>service_theme := theme_name\<rparr>))
              (emit (Str (''Service theme set to '' @ quote theme_name))))))
       (\<lambda>e. emit (Str (''Error setting theme: '' @ exc_str e)))"

section \<open>Theme management\<close>

text \<open>
  A theme is the dictionary of its attributes. \<open>py_str\<close> is \<open>str\<close> on a value, \<open>py_truthy\<close>
  its truth value, \<open>dict_get\<close> is \<open>dict.get\<close> with a default and \<open>set_attr\<close> is \<open>setattr\<close>.
\<close>

fun py_str :: "pyval \<Rightarrow> string" where
  "py_str (PStr x) = x"
| "py_str (PInt i) = str_int i"
| "py_str (PBool b) = (if b then ''True'' else ''False'')"
| "py_str PNone = ''None''"

fun py_truthy :: "pyval \<Rightarrow> bool" where
  "py_truthy (PStr x) = (x \<noteq> [])"
| "py_truthy (PInt i) = (i \<noteq> 0)"
| "py_truthy (PBool b) = b"
| "py_truthy PNone = False"

definition dict_get :: "pydict \<Rightarrow> string \<Rightarrow> pyval \<Rightarrow> pyval" where
  "dict_get d k dflt = (case map_of d k of None \<Rightarrow> dflt | Some v \<Rightarrow> v)"

definition set_attr :: "string \<Rightarrow> pyval \<Rightarrow> pydict \<Rightarrow> pydict" where
  "set_attr k v d =
     (if k \<in> set (map fst d) then map (\<lambda>kv. if fst kv = k then (k, v) else kv) d
      else d @ [(k, v)])"

text \<open>\<open>resolve_file_path\<close> and \<open>is_url\<close> on a value that need not be a string.\<close>

definition resolve_value :: "pyval \<Rightarrow> string M" where
  "resolve_value v =
     (case v of
        PStr path \<Rightarrow> resolve_file_path path
      | _ \<Rightarrow> raiseM (Exc OtherException ''expected str, bytes or os.PathLike object''))"

definition is_url_value :: "pyval \<Rightarrow> bool" where
  "is_url_value v = (case v of PStr path \<Rightarrow> is_url path | _ \<Rightarrow> False)"

definition with_background_image :: "string \<Rightarrow> pydict \<Rightarrow> pydict" where
  "with_background_image resolved theme =
     set_attr ''background_filename'' (PStr resolved)
       (set_attr ''background_source'' (PStr resolved) theme)"

text \<open>
  The background part of \<open>create_theme\<close>; \<open>None\<close> when the handler has signalled the
  download error and returned.
\<close>

definition theme_background :: "pydict \<Rightarrow> pydict \<Rightarrow> pydict option M" where
  "theme_background theme_data theme =
     (let background_type = dict_get theme_data ''background_type'' (PStr ''solid'');
          image_path = dict_get theme_data ''background_image_path'' PNone
      in if background_type = PStr ''solid'' then
           returnM (Some
             (set_attr ''background_color''
                (dict_get theme_data ''background_color'' (PStr ''#000000''))
                (set_attr ''background_type'' (PStr ''solid'') theme)))
         else if background_type = PStr ''gradient'' then
           returnM (Some
             (set_attr ''background_direction''
                (if dict_get theme_data ''background_direction'' (PStr ''vertical'')
                      = PStr ''vertical''
                 then PStr ''vertical'' else PStr ''horizontal'')
             (set_attr ''background_end_color''
                (dict_get theme_data ''background_end_color'' (PStr ''#000000''))
             (set_attr ''background_start_color''
                (dict_get theme_data ''background_start_color'' (PStr ''#000000''))
             (set_attr ''background_type'' (PStr ''gradient'') theme)))))
         else if background_type = PStr ''image'' \<and> py_truthy image_path then
           try_except
             (bindM (resolve_value image_path) (\<lambda>resolved.
                returnM (Some (with_background_image resolved
                                 (set_attr ''background_type'' (PStr ''image'') theme)))))
             (\<lambda>e. thenM (emit (Str (''Error downloading background image from ''
                                    @ py_str image_path @ '': '' @ exc_str e)))
                       (returnM None))
         else returnM (Some theme))"

definition font_defaults :: "(string \<times> pyval) list" where
  "font_defaults =
     [(''font_main_name'', PStr ''Arial''), (''font_main_size'', PInt 40),
      (''font_main_color'', PStr ''#FFFFFF''), (''font_main_bold'', PBool False),
      (''font_main_italics'', PBool False), (''font_main_outline'', PBool False),
      (''font_main_outline_color'', PStr ''#000000''), (''font_main_outline_size'', PInt 2),
      (''font_main_shadow'', PBool True), (''font_main_shadow_color'', PStr ''#000000''),
      (''font_main_shadow_size'', PInt 5),
      (''font_footer_name'', PStr ''Arial''), (''font_footer_size'', PInt 12),
      (''font_footer_color'', PStr ''#FFFFFF'')]"

definition theme_fonts :: "pydict \<Rightarrow> pydict \<Rightarrow> pydict" where
  "theme_fonts theme_data theme =
     fold (\<lambda>kd t. set_attr (fst kd) (dict_get theme_data (fst kd) (snd kd)) t)
          font_defaults theme"

text \<open>\<open>theme_manager.save_theme\<close> stores the theme under its name.\<close>

definition save_theme :: "string \<Rightarrow> pydict \<Rightarrow> unit M" where
  "save_theme nm theme =
     thenM (collab ''theme_manager.save_theme'')
           (modify (\<lambda>w. w\<lparr>themes := filter (\<lambda>t. fst t \<noteq> nm) (themes w) @ [(nm, theme)]\<rparr>))"

definition create_theme :: "pydict \<Rightarrow> unit M" where
  "create_theme theme_data =
     try_except
       (case map_of theme_data ''theme_name'' of
          None \<Rightarrow> raiseM (Exc OtherException (quote ''theme_name''))
        | Some theme_name \<Rightarrow>
            thenM (collab ''Registry.get(theme_manager)'')
           (thenM (collab ''theme_manager.get_theme_names'')
           (bindM (gets theme_names) (\<lambda>names.
              if theme_name \<in> set (map PStr names) then
                emit (Str (''Theme '' @ quote (py_str theme_name) @ '' already exists''))
              else
                thenM (collab ''Theme'')
               (bindM (theme_background theme_data [(''theme_name'', theme_name)]) (\<lambda>bg.
                  case bg of
                    None \<Rightarrow> returnM ()
                  | Some theme \<Rightarrow>
                      thenM (save_theme (py_str theme_name) (theme_fonts theme_data theme))
                     (thenM (collab ''theme_manager.update_preview_images'')
                            (emit (Str (''Theme '' @ quote (py_str theme_name)
                               @ '' created successfully''
                               @ (if dict_get theme_data ''background_type'' (PStr ''solid'')
                                       = PStr ''image''
                                     \<and> py_truthy (dict_get theme_data ''background_image_path'' PNone)
                                     \<and> is_url_value (dict_get theme_data ''background_image_path'' PNone)
                                  then '' (background image downloaded from URL)''
                                  else [])))))))))))
       (\<lambda>e. emit (Str (''Error creating theme: '' @ exc_str e)))"

text \<open>
  The attributes \<open>get_theme_details\<close> reads, in its order; those read with \<open>getattr\<close> and
  the default \<open>N/A\<close> are marked.
\<close>

definition detail_keys :: "(string \<times> bool) list" where
  "detail_keys =
     [(''theme_name'', False), (''background_type'', False), (''background_color'', True),
      (''background_start_color'', True), (''background_end_color'', True),
      (''background_direction'', True), (''background_filename'', True),
      (''font_main_name'', False), (''font_main_size'', False), (''font_main_color'', False),
      (''font_main_bold'', False), (''font_main_italics'', False),
      (''font_main_outline'', False), (''font_main_outline_color'', False),
      (''font_main_outline_size'', False), (''font_main_shadow'', False),
      (''font_main_shadow_color'', False), (''font_main_shadow_size'', False),
      (''font_footer_name'', False), (''font_footer_size'', False),
      (''font_footer_color'', False)]"

fun collect_details :: "pydict \<Rightarrow> (string \<times> bool) list \<Rightarrow> string list M" where
  "collect_details theme [] = returnM []"
| "collect_details theme (ko # ks) =
     (case map_of theme (fst ko) of
        Some v \<Rightarrow>
          bindM (collect_details theme ks) (\<lambda>ls. returnM ((fst ko @ '': '' @ py_str v) # ls))
      | None \<Rightarrow>
          if snd ko then
            bindM (collect_details theme ks) (\<lambda>ls. returnM ((fst ko @ '': N/A'') # ls))
          else raiseM (Exc OtherException
                 (quote ''Theme'' @ '' object has no attribute '' @ quote (fst ko))))"

definition get_theme_details :: "string \<Rightarrow> unit M" where
  "get_theme_details theme_name =
     try_except
       (thenM (collab ''Registry.get(theme_manager)'')
       (thenM (collab ''theme_manager.get_theme_data'')
       (bindM (gets themes) (\<lambda>ts.
          case map_of ts theme_name of
            None \<Rightarrow> emit (Str (''Theme '' @ quote theme_name @ '' not found''))
          | Some theme_data \<Rightarrow>
              bindM (collect_details theme_data detail_keys) (\<lambda>ls.
                emit (Str (''Theme Details:'' @ [CHR 0x0A] @ join [CHR 0x0A] ls)))))))
       (\<lambda>e. emit (Str (''Error getting theme details: '' @ exc_str e)))"

text \<open>
  \<open>update_theme\<close>. The dictionary the tool sends always has the keys \<open>theme_name\<close> and
  \<open>updates\<close>; they are the two arguments here.
\<close>

definition update_background :: "pydict \<Rightarrow> pydict \<Rightarrow> (pydict \<times> pydict) option M" where
  "update_background updates_data theme =
     (case map_of updates_data ''background_image_path'' of
        None \<Rightarrow> returnM (Some (theme, updates_data))
      | Some image_path \<Rightarrow>
          if py_truthy image_path then
            try_except
              (bindM (resolve_value image_path) (\<lambda>resolved.
                 returnM (Some (with_background_image resolved theme,
                                filter (\<lambda>kv. fst kv \<noteq> ''background_image_path'')
                                       updates_data))))
              (\<lambda>e. thenM (emit (Str (''Error downloading background image from ''
                                     @ py_str image_path @ '': '' @ exc_str e)))
                        (returnM None))
          else returnM (Some (theme, updates_data)))"

definition apply_updates :: "pydict \<Rightarrow> pydict \<Rightarrow> pydict \<times> string list" where
  "apply_updates theme updates_data =
     fold (\<lambda>kv acc.
             if snd kv \<noteq> PNone \<and> fst kv \<in> set (map fst (fst acc))
             then (set_attr (fst kv) (snd kv) (fst acc),
                   snd acc @ [fst kv @ '': '' @ py_str (snd kv)])
             else acc)
          updates_data (theme, [])"

definition image_update_line :: "pydict \<Rightarrow> string list" where
  "image_update_line updates_data =
     (case map_of updates_data ''background_image_path'' of
        None \<Rightarrow> []
      | Some original_path \<Rightarrow>
          if is_url_value original_path
          then [''background_image_path: '' @ py_str original_path @ '' (downloaded)'']
          else [''background_image_path: '' @ py_str original_path])"

definition update_theme :: "string \<Rightarrow> pydict \<Rightarrow> unit M" where
  "update_theme theme_name updates_data =
     try_except
       (thenM (collab ''Registry.get(theme_manager)'')
       (thenM (collab ''theme_manager.get_theme_data'')
       (bindM (gets themes) (\<lambda>ts.
          case map_of ts theme_name of
            None \<Rightarrow> emit (Str (''Theme '' @ quote theme_name @ '' not found''))
          | Some theme \<Rightarrow>
              bindM (update_background updates_data theme) (\<lambda>r.
                case r of
                  None \<Rightarrow> returnM ()
                | Some tu \<Rightarrow>
                    (let applied = apply_updates (fst tu) (snd tu);
                         updates = snd applied @ image_update_line updates_data
                     in if updates \<noteq> []
                           \<or> ''background_image_path'' \<in> set (map fst updates_data) then
                          thenM (save_theme theme_name (fst applied))
                         (thenM (collab ''theme_manager.update_preview_images'')
                                (emit (Str (''Theme '' @ quote theme_name @ '' updated: ''
                                            @ join '', '' updates))))
                        else
                          emit (Str (''No valid properties provided to update for theme ''
                                     @ quote theme_name))))))))
       (\<lambda>e. emit (Str (''Error updating theme: '' @ exc_str e)))"

definition duplicate_theme :: "string \<Rightarrow> string \<Rightarrow> unit M" where
  "duplicate_theme existing_theme_name new_theme_name =
     try_except
       (thenM (collab ''Registry.get(theme_manager)'')
       (thenM (collab ''theme_manager.get_theme_names'')
       (bindM (gets theme_names) (\<lambda>names.
          if existing_theme_name \<notin> set names then
            emit (Str (''Source theme '' @ quote existing_theme_name @ '' not found''))
          else
            thenM (collab ''theme_manager.get_theme_names'')
              (if new_theme_name \<in> set names then
                 emit (Str (''Theme '' @ quote new_theme_name @ '' already exists''))
               else
                 thenM (collab ''theme_manager.get_theme_data'')
                (thenM (collab ''theme_manager.clone_theme_data'')
                (thenM (modify (\<lambda>w. w\<lparr>themes := themes w @
                          [(new_theme_name,
                            set_attr ''theme_name'' (PStr new_theme_name)
                              (case map_of (themes w) existing_theme_name of
                                 None \<Rightarrow> [] | Some t \<Rightarrow> t))]\<rparr>))
                       (emit (Str (''Theme '' @ quote existing_theme_name
                                   @ '' duplicated as '' @ quote new_theme_name))))))))))
       (\<lambda>e. emit (Str (''Error duplicating theme: '' @ exc_str e)))"

text \<open>
  \<open>service_item.get_theme_data()\<close>: the theme in force for an item at the configured
  theme level, \<open>None\<close> when the theme manager has no such theme.
\<close>

definition effective_theme :: "world \<Rightarrow> service_item \<Rightarrow> string option" where
  "effective_theme w si =
     (let t0 = (if level w \<noteq> Global \<and> service_theme w \<noteq> [] then service_theme w
                else global_theme w);
          t = (if level w = Song \<and> truthy (item_theme si) then the (item_theme si) else t0)
      in if t \<in> set (theme_names w) then Some t else None)"

definition level_name :: "theme_level \<Rightarrow> string" where
  "level_name l =
     (case l of Global \<Rightarrow> ''Global'' | Service \<Rightarrow> ''Service'' | Song \<Rightarrow> ''Song/Item''
      | OtherLevel \<Rightarrow> ''Unknown'')"

definition item_theme_report :: "int \<Rightarrow> service_item \<Rightarrow> string option \<Rightarrow> theme_level \<Rightarrow> string" where
  "item_theme_report item_index si effective l =
     ''Item '' @ str_int item_index @ '' ('' @ quote (item_title si) @ ''):'' @ [CHR 0x0A]
     @ (if truthy (item_theme si)
        then ''  Item-specific theme: '' @ quote (the (item_theme si))
        else ''  Item-specific theme: None (using service/global theme)'') @ [CHR 0x0A]
     @ ''  Effective theme: ''
     @ quote (case effective of None \<Rightarrow> ''Unknown'' | Some t \<Rightarrow> t) @ [CHR 0x0A]
     @ ''  Theme level: '' @ level_name l"

definition get_item_theme :: "int \<Rightarrow> unit M" where
  "get_item_theme item_index =
     try_except
       (thenM (collab ''Registry.get(service_manager)'')
       (thenM (collab ''service_manager.service_items'')
       (bindM (gets service_items) (\<lambda>items.
          if item_index < 0 \<or> item_index \<ge> int (length items) then
            emit (Str (''Invalid item index: '' @ str_int item_index))
          else
            thenM (collab ''service_item.get_theme_data'')
           (bindM (gets (\<lambda>w. effective_theme w (entry_item (items ! nat item_index))))
              (\<lambda>effective.
            thenM (collab ''Registry.get(settings)'')
           (thenM (collab ''settings.value(themes/theme level)'')
           (bindM (gets level) (\<lambda>l.
              emit (Str (item_theme_report item_index (entry_item (items ! nat item_index))
                           effective l)))))))))))
       (\<lambda>e. emit (Str (''Error getting item theme: '' @ exc_str e)))"

section \<open>The dispatch table\<close>

text \<open>
  One request signal per operation, each connected to its handler in
  \<open>MCPWorker.__init__\<close>; the signal of \<open>set_item_theme\<close> carries a string.
\<close>

datatype op =
    CreateService
  | LoadService string
  | SaveService string
  | GetServiceItems
  | AddSong string string string
  | AddCustomSlide string string
  | AddMedia string string
  | GoLive int
  | NextSlide
  | PreviousSlide
  | ListThemes
  | SetTheme string
  | CreateTheme pydict
  | GetThemeDetails string
  | UpdateTheme string pydict
  | DeleteTheme string
  | DuplicateTheme string string
  | SetItemTheme int string
  | GetItemTheme int
  | ClearItemTheme int

fun dispatch :: "op \<Rightarrow> unit M" where
  "dispatch CreateService = create_service"
| "dispatch (LoadService file_path) = load_service file_path"
| "dispatch (SaveService file_path) = save_service file_path"
| "dispatch GetServiceItems = get_service_items"
| "dispatch (AddSong title author lyrics) = add_song title author lyrics"
| "dispatch (AddCustomSlide title content) = add_custom_slide title content"
| "dispatch (AddMedia file_path title) = add_media file_path title"
| "dispatch (GoLive item_index) = go_live item_index"
| "dispatch NextSlide = next_slide"
| "dispatch PreviousSlide = previous_slide"
| "dispatch ListThemes = list_themes"
| "dispatch (SetTheme theme_name) = set_theme theme_name"
| "dispatch (CreateTheme theme_data) = create_theme theme_data"
| "dispatch (GetThemeDetails theme_name) = get_theme_details theme_name"
| "dispatch (UpdateTheme theme_name updates) = update_theme theme_name updates"
| "dispatch (DeleteTheme theme_name) = delete_theme theme_name"
| "dispatch (DuplicateTheme existing_theme_name new_theme_name) =
     duplicate_theme existing_theme_name new_theme_name"
| "dispatch (SetItemTheme item_index theme_name) = set_item_theme item_index (Some theme_name)"
| "dispatch (GetItemTheme item_index) = get_item_theme item_index"
| "dispatch (ClearItemTheme item_index) = clear_item_theme item_index"

section \<open>The caller's side\<close>

text \<open>
  A tool function runs on the server's thread. Its statements are the emission of a
  request signal, which queues the call of the connected handler for the privileged
  thread, and the two statements of \<open>wait_for_result\<close>: \<open>result_ready.clear()\<close> and
  \<open>result_ready.wait(timeout)\<close>, the latter with the message of the \<open>TimeoutError\<close> raised
  when it returns false. Timeouts are in seconds.
\<close>

datatype action = Emit op | Clear | Wait nat string

definition wait_for_result :: "nat option \<Rightarrow> action list" where
  "wait_for_result timeout =
     [Clear, Wait (case timeout of None \<Rightarrow> 10 | Some t \<Rightarrow> t) ''Operation timed out'']"

definition wait_for_result_long :: "nat option \<Rightarrow> action list" where
  "wait_for_result_long timeout =
     [Clear, Wait (case timeout of None \<Rightarrow> 90 | Some t \<Rightarrow> t) ''Long operation timed out'']"

text \<open>\<open>x or ""\<close> for an optional string argument.\<close>

definition or_empty :: "string option \<Rightarrow> string" where
  "or_empty x = (case x of None \<Rightarrow> [] | Some v \<Rightarrow> v)"

definition create_new_service :: "action list" where
  "create_new_service = Emit CreateService # wait_for_result None"

definition load_service_tool :: "string \<Rightarrow> action list" where
  "load_service_tool file_path = Emit (LoadService file_path) # wait_for_result None"

definition save_service_tool :: "string option \<Rightarrow> action list" where
  "save_service_tool file_path = Emit (SaveService (or_empty file_path)) # wait_for_result None"

definition get_service_items_tool :: "action list" where
  "get_service_items_tool = Emit GetServiceItems # wait_for_result None"

definition add_song_to_service :: "string \<Rightarrow> string option \<Rightarrow> string option \<Rightarrow> action list" where
  "add_song_to_service title author lyrics =
     Emit (AddSong title (or_empty author) (or_empty lyrics)) # wait_for_result None"

definition add_custom_slide_to_service :: "string \<Rightarrow> string \<Rightarrow> action list" where
  "add_custom_slide_to_service title content =
     Emit (AddCustomSlide title content) # wait_for_result None"

definition add_media_to_service :: "string \<Rightarrow> string option \<Rightarrow> action list" where
  "add_media_to_service file_path title =
     Emit (AddMedia file_path (or_empty title))
     # (if lower (path_suffix file_path) \<in> set [''.pptx'', ''.ppt'', ''.pps'', ''.ppsx'']
        then wait_for_result_long None
        else wait_for_result None)"

definition add_sample_image :: "string \<Rightarrow> action list" where
  "add_sample_image cwd =
     Emit (AddMedia (path_join cwd ''image.jpg'') ''Sample Image'') # wait_for_result None"

definition add_sample_video :: "string \<Rightarrow> action list" where
  "add_sample_video cwd =
     Emit (AddMedia (path_join cwd ''video.mp4'') ''Sample Video'') # wait_for_result None"

definition test_media_types :: "string \<Rightarrow> action list" where
  "test_media_types cwd =
     Emit CreateService # wait_for_result None
     @ Emit (AddMedia (path_join cwd ''image.jpg'') ''Test Image'') # wait_for_result None
     @ Emit (AddMedia (path_join cwd ''video.mp4'') ''Test Video'') # wait_for_result None"

definition go_live_with_item :: "int \<Rightarrow> action list" where
  "go_live_with_item item_index = Emit (GoLive item_index) # wait_for_result None"

definition next_slide_tool :: "action list" where
  "next_slide_tool = Emit NextSlide # wait_for_result None"

definition previous_slide_tool :: "action list" where
  "previous_slide_tool = Emit PreviousSlide # wait_for_result None"

definition list_themes_tool :: "action list" where
  "list_themes_tool = Emit ListThemes # wait_for_result None"

definition set_service_theme :: "string \<Rightarrow> action list" where
  "set_service_theme theme_name = Emit (SetTheme theme_name) # wait_for_result None"

text \<open>
  The parameters of \<open>create_theme_with_properties\<close> after \<open>theme_name\<close>, with their
  defaults; the first argument of the tool holds the parameters the client passed.
\<close>

definition theme_parameters :: "(string \<times> pyval) list" where
  "theme_parameters =
     [(''background_type'', PStr ''solid''), (''background_color'', PStr ''#000000''),
      (''background_start_color'', PStr ''#000000''),
      (''background_end_color'', PStr ''#000000''),
      (''background_direction'', PStr ''vertical''), (''background_image_path'', PNone),
      (''font_main_name'', PStr ''Arial''), (''font_main_size'', PInt 40),
      (''font_main_color'', PStr ''#FFFFFF''), (''font_main_bold'', PBool False),
      (''font_main_italics'', PBool False), (''font_main_shadow'', PBool True),
      (''font_main_shadow_color'', PStr ''#000000''), (''font_main_shadow_size'', PInt 5),
      (''font_main_outline'', PBool False), (''font_main_outline_color'', PStr ''#000000''),
      (''font_main_outline_size'', PInt 2),
      (''font_footer_name'', PStr ''Arial''), (''font_footer_size'', PInt 12),
      (''font_footer_color'', PStr ''#FFFFFF'')]"

definition create_theme_with_properties :: "string \<Rightarrow> pydict \<Rightarrow> action list" where
  "create_theme_with_properties theme_name args =
     Emit (CreateTheme
            ((''theme_name'', PStr theme_name)
             # map (\<lambda>kd. (fst kd, dict_get args (fst kd) (snd kd))) theme_parameters))
     # wait_for_result None"

definition get_theme_details_tool :: "string \<Rightarrow> action list" where
  "get_theme_details_tool theme_name = Emit (GetThemeDetails theme_name) # wait_for_result None"

definition update_theme_properties :: "string \<Rightarrow> pydict \<Rightarrow> action list" where
  "update_theme_properties theme_name args =
     Emit (UpdateTheme theme_name
            (filter (\<lambda>kv. snd kv \<noteq> PNone)
               (map (\<lambda>kd. (fst kd, dict_get args (fst kd) PNone)) theme_parameters)))
     # wait_for_result None"

definition delete_theme_tool :: "string \<Rightarrow> action list" where
  "delete_theme_tool theme_name = Emit (DeleteTheme theme_name) # wait_for_result None"

definition duplicate_theme_tool :: "string \<Rightarrow> string \<Rightarrow> action list" where
  "duplicate_theme_tool existing_theme_name new_theme_name =
     Emit (DuplicateTheme existing_theme_name new_theme_name) # wait_for_result None"

definition set_item_theme_tool :: "int \<Rightarrow> string \<Rightarrow> action list" where
  "set_item_theme_tool item_index theme_name =
     Emit (SetItemTheme item_index theme_name) # wait_for_result None"

definition get_item_theme_tool :: "int \<Rightarrow> action list" where
  "get_item_theme_tool item_index = Emit (GetItemTheme item_index) # wait_for_result None"

definition clear_item_theme_tool :: "int \<Rightarrow> action list" where
  "clear_item_theme_tool item_index = Emit (ClearItemTheme item_index) # wait_for_result None"

section \<open>The two threads\<close>

text \<open>
  The privileged thread runs the queued slot calls one after the other: the handlers of
  the requests and the two slots connected to the conversion worker's signals. An
  exception leaving a slot ends in Qt's event loop, not in the caller.
\<close>

datatype slot_call =
    Request op
  | ConversionCompleted string string
  | ConversionFailed string

fun run_slot :: "slot_call \<Rightarrow> unit M" where
  "run_slot (Request r) = dispatch r"
| "run_slot (ConversionCompleted pdf_path title) = on_conversion_completed pdf_path title"
| "run_slot (ConversionFailed error_message) = on_conversion_failed error_message"

text \<open>
  The state of the whole: the worker and its host, the queue of the privileged thread,
  the time, the statements the tool function has still to run, the deadline and timeout
  message while it is blocked in \<open>wait\<close>, the values its waits have returned and the
  exception that ended it.
\<close>

record system =
  sys_world :: world
  queue :: "slot_call list"
  clock :: nat
  prog :: "action list"
  deadline :: "(nat \<times> string) option"
  returned :: "payload option list"
  raised :: "exc option"

text \<open>
  What can happen next: the tool function runs a statement, the privileged thread runs
  the next queued call, time passes, or a conversion thread runs its job to the end.
\<close>

datatype event = Caller | Privileged | Elapse nat | Converts nat

definition caller_step :: "system \<Rightarrow> system" where
  "caller_step s =
     (if deadline s \<noteq> None then s
      else case prog s of
             [] \<Rightarrow> s
           | Emit r # rest \<Rightarrow> s\<lparr>queue := queue s @ [Request r], prog := rest\<rparr>
           | Clear # rest \<Rightarrow>
               s\<lparr>sys_world := (sys_world s)\<lparr>result_ready := False\<rparr>, prog := rest\<rparr>
           | Wait t msg # rest \<Rightarrow> s\<lparr>prog := rest, deadline := Some (clock s + t, msg)\<rparr>)"

definition privileged_step :: "system \<Rightarrow> system" where
  "privileged_step s =
     (case queue s of
        [] \<Rightarrow> s
      | c # rest \<Rightarrow> s\<lparr>sys_world := snd (run_slot c (sys_world s)), queue := rest\<rparr>)"

text \<open>
  The job of conversion thread \<open>i\<close>: the slot connected to \<open>started\<close> calls
  \<open>convert_powerpoint\<close> with the captured path and the title pending at that moment; the
  signal it answers with is queued for the privileged thread. A stopped thread and a
  thread whose job is done do nothing.
\<close>

definition signal_call :: "conversion_signal \<Rightarrow> slot_call" where
  "signal_call sig =
     (case sig of
        conversion_completed pdf_path title \<Rightarrow> ConversionCompleted pdf_path title
      | conversion_failed error_message \<Rightarrow> ConversionFailed error_message)"

definition converts_step :: "nat \<Rightarrow> system \<Rightarrow> system" where
  "converts_step i s =
     (let w = sys_world s in
      if i < length (threads w) \<and> thread_running (threads w ! i)
         \<and> \<not> thread_job_done (threads w ! i) then
        (case convert_powerpoint (thread_ppt_path (threads w ! i))
                (or_empty (pending_conversion_title w)) w of
           (Inr sig, w') \<Rightarrow>
             s\<lparr>sys_world := w'\<lparr>threads := (threads w')[i := (threads w' ! i)
                                              \<lparr>thread_job_done := True\<rparr>]\<rparr>,
               queue := queue s @ [signal_call sig]\<rparr>
         | (Inl e, w') \<Rightarrow> s\<lparr>sys_world := w'\<rparr>)
      else s)"

text \<open>
  \<open>Event.wait\<close>: the blocked caller goes on as soon as the event is set, with
  \<open>current_result\<close> as the value returned, and gives up with \<open>TimeoutError\<close> once the
  deadline is reached with the event still unset.
\<close>

definition settle :: "system \<Rightarrow> system" where
  "settle s =
     (case deadline s of
        None \<Rightarrow> s
      | Some dm \<Rightarrow>
          if result_ready (sys_world s) then
            s\<lparr>deadline := None, returned := returned s @ [current_result (sys_world s)]\<rparr>
          else if fst dm \<le> clock s then
            s\<lparr>deadline := None, prog := [], raised := Some (Exc TimeoutError (snd dm))\<rparr>
          else s)"

definition step :: "event \<Rightarrow> system \<Rightarrow> system" where
  "step e s =
     settle (case e of
               Caller \<Rightarrow> caller_step s
             | Privileged \<Rightarrow> privileged_step s
             | Elapse n \<Rightarrow> s\<lparr>clock := clock s + n\<rparr>
             | Converts i \<Rightarrow> converts_step i s)"

fun run :: "event list \<Rightarrow> system \<Rightarrow> system" where
  "run [] s = s"
| "run (e # es) s = run es (step e s)"

text \<open>The time that passes in a list of events.\<close>

fun elapsed :: "event list \<Rightarrow> nat" where
  "elapsed [] = 0"
| "elapsed (Elapse n # es) = n + elapsed es"
| "elapsed (e # es) = elapsed es"

text \<open>A tool function called in a state of the worker, nothing queued, at time 0.\<close>

definition call :: "action list \<Rightarrow> world \<Rightarrow> system" where
  "call tool w =
     \<lparr>sys_world = w, queue = [], clock = 0, prog = tool, deadline = None, returned = [],
      raised = None\<rparr>"

section \<open>A sample state\<close>

text \<open>
  A service of three items with the themes \<open>Default\<close>, \<open>Blue\<close> and \<open>Green\<close>, the global
  theme being \<open>Blue\<close>; no host call raises.
\<close>

definition sample_env :: env where
  "sample_env =
     \<lparr>fault = (\<lambda>tr. None), head_content_type = (\<lambda>u. None), url_hash = (\<lambda>u. 0),
      download_result = (\<lambda>u. True), tempdir = ''/tmp'',
      libreoffice_result = (\<lambda>p. None), pptx_result = (\<lambda>p. None),
      documents = (\<lambda>p. None), generate_slide_data = True,
      load_result = (\<lambda>p. [])\<rparr>"

definition sample_item :: "string \<Rightarrow> nat \<Rightarrow> entry" where
  "sample_item t n =
     \<lparr>entry_item = \<lparr>item_title = t, item_type = ''ServiceItemType.Text'', item_name = ''custom'',
                     item_theme = Some ''Green'', item_uid = n, item_slides = 1\<rparr>,
      entry_order = int n\<rparr>"

definition sample_world :: world where
  "sample_world =
     \<lparr>env = sample_env,
      service_items = [sample_item ''Welcome'' 1, sample_item ''Reading'' 2, sample_item ''Notices'' 3],
      service_file_name = [], service_theme = [],
      themes = [(''Default'', []), (''Blue'', []), (''Green'', [])],
      global_theme = ''Blue'', live_item = None, hot_reload = False, level = Global,
      plugins = [(''songs'', True), (''custom'', True), (''images'', True), (''media'', True),
                 (''presentations'', True)],
      pdf_controller = Some True, songs = [], files = [], calls = [],
      current_result = None, result_ready = False, emitted = [],
      threads = [], conversion_thread = None, conversion_worker = None,
      pending_conversion_title = None\<rparr>"

text \<open>The same state with every host call raising \<open>boom\<close>.\<close>

definition faulty_world :: world where
  "faulty_world = sample_world\<lparr>env := sample_env\<lparr>fault := (\<lambda>tr. Some ''boom'')\<rparr>\<rparr>"

text \<open>
  The sample state with some local files; the PDF controller opens \<open>/m/deck.pdf\<close> and the
  converted \<open>/m/a.pdf\<close> and \<open>/m/b.pdf\<close> as documents of three pages.
\<close>

definition sample_doc :: document where
  "sample_doc =
     \<lparr>doc_loads = True, doc_get_slide_count = Some (Some 3), doc_get_page_count = None,
      doc_pageCount = None, doc_slide_count = None, doc_get_thumbnail_path = Some None,
      doc_get_sha256_file_hash = Some ''0f''\<rparr>"

definition media_env :: env where
  "media_env =
     sample_env\<lparr>documents := (\<lambda>p. if p \<in> set [''/m/deck.pdf'', ''/m/a.pdf'', ''/m/b.pdf'']
                                    then Some sample_doc else None),
                libreoffice_result := (\<lambda>p. if p = ''/m/a.pptx'' then Some ''/m/a.pdf''
                                            else if p = ''/m/b.pptx'' then Some ''/m/b.pdf''
                                            else None)\<rparr>"

definition media_world :: world where
  "media_world =
     sample_world\<lparr>env := media_env,
                  files := [''/m/photo.JPG'', ''/m/clip.mp4'', ''/m/song.mp3'', ''/m/deck.pdf'',
                            ''/m/a.pptx'', ''/m/b.pptx'', ''/m/notes.txt'']\<rparr>"

section \<open>Properties\<close>

lemmas monad_defs = try_except_def thenM_def bindM_def returnM_def raiseM_def collab_def
  modify_def gets_def emit_def handle_result_def

lemmas sample_defs = sample_world_def sample_env_def sample_item_def faulty_world_def

lemma try_except_emit_fst: "fst (try_except m (\<lambda>e. emit (f e)) w) = Inr ()"
  by (cases "m w"; cases "fst (m w)") (auto simp: try_except_def emit_def)

lemma try_except_no_raise: "fst (m w) = Inr x \<Longrightarrow> try_except m h w = m w"
  by (cases "m w") (auto simp: try_except_def)

lemma set_item_theme_fst: "fst (set_item_theme i t w) = Inr ()"
  unfolding set_item_theme_def by (rule try_except_emit_fst)

lemma set_none_valid:
  assumes "fault (env w) = (\<lambda>tr. None)" "0 \<le> i" "i < int (length (service_items w))"
  shows "emitted (snd (set_item_theme i None w)) = emitted w @
            [Str (''Item '' @ str_int i @ '' ('' @ quote (item_title (entry_item (service_items w ! nat i)))
                     @ '') theme cleared (using service/global theme)'')]
         \<and> item_theme (entry_item (service_items (snd (set_item_theme i None w)) ! nat i)) = None"
  using assms
  by (simp add: set_item_theme_def apply_item_theme_def refresh_if_live_def update_theme_at_def
      monad_defs truthy_def Let_def split: option.splits)

lemma set_none_invalid:
  assumes "fault (env w) = (\<lambda>tr. None)" "i < 0 \<or> int (length (service_items w)) \<le> i"
  shows "emitted (snd (set_item_theme i None w)) = emitted w @ [Str (''Invalid item index: '' @ str_int i)]
         \<and> service_items (snd (set_item_theme i None w)) = service_items w"
  using assms
  by (auto simp add: set_item_theme_def monad_defs Let_def)

text \<open>
  C10. \<open>clear_item_theme\<close> is \<open>set_item_theme\<close> called with \<open>None\<close>: the same state
  change, the same index check and the same signalled result, in every state. When no host
  call raises, a valid index has its item theme cleared and the result says so, and an
  index out of range yields the invalid-index result and leaves the service untouched.
\<close>

theorem clear_item_theme_is_set_item_theme_None:
  "clear_item_theme item_index w = set_item_theme item_index None w
   \<and> (fault (env w) = (\<lambda>tr. None) \<and> 0 \<le> item_index \<and> item_index < int (length (service_items w)) \<longrightarrow>
        emitted (snd (clear_item_theme item_index w)) = emitted w @
          [Str (''Item '' @ str_int item_index @ '' (''
                @ quote (item_title (entry_item (service_items w ! nat item_index)))
                @ '') theme cleared (using service/global theme)'')]
        \<and> item_theme (entry_item (service_items (snd (clear_item_theme item_index w)) ! nat item_index)) = None)
   \<and> (fault (env w) = (\<lambda>tr. None) \<and> (item_index < 0 \<or> int (length (service_items w)) \<le> item_index) \<longrightarrow>
        emitted (snd (clear_item_theme item_index w)) = emitted w @ [Str (''Invalid item index: '' @ str_int item_index)]
        \<and> service_items (snd (clear_item_theme item_index w)) = service_items w)"
proof -
  have eq: "clear_item_theme item_index w = set_item_theme item_index None w"
    by (simp add: clear_item_theme_def try_except_no_raise[OF set_item_theme_fst])
  show ?thesis
    unfolding eq using set_none_valid[of w item_index] set_none_invalid[of w item_index] by blast
qed

theorem clear_item_theme_witness:
  "emitted (snd (clear_item_theme 0 sample_world))
     = [Str (''Item 0 ('' @ quote ''Welcome'' @ '') theme cleared (using service/global theme)'')]
   \<and> item_theme (entry_item (service_items (snd (clear_item_theme 0 sample_world)) ! 0)) = None
   \<and> emitted (snd (clear_item_theme 5 sample_world)) = [Str ''Invalid item index: 5'']
   \<and> clear_item_theme 5 sample_world = set_item_theme 5 None sample_world"
proof -
  have nf: "fault (env sample_world) = (\<lambda>tr. None)"
    by (simp add: sample_defs)
  have len: "length (service_items sample_world) = 3"
    and first: "item_title (entry_item (service_items sample_world ! 0)) = ''Welcome''"
    and em: "emitted sample_world = []"
    by (simp_all add: sample_defs)
  have s0: "str_int 0 = ''0''" and s5: "str_int 5 = ''5''"
    by (simp_all add: str_int_def str_nat.simps)
  from conjunct1[OF conjunct2[OF clear_item_theme_is_set_item_theme_None[of 0 sample_world]]] nf len
  have a: "emitted (snd (clear_item_theme 0 sample_world)) = emitted sample_world @
          [Str (''Item '' @ str_int 0 @ '' (''
                @ quote (item_title (entry_item (service_items sample_world ! nat 0)))
                @ '') theme cleared (using service/global theme)'')]
        \<and> item_theme (entry_item (service_items (snd (clear_item_theme 0 sample_world)) ! nat 0)) = None"
    by simp
  from conjunct2[OF conjunct2[OF clear_item_theme_is_set_item_theme_None[of 5 sample_world]]] nf len
  have b: "emitted (snd (clear_item_theme 5 sample_world))
            = emitted sample_world @ [Str (''Invalid item index: '' @ str_int 5)]"
    by simp
  have c: "clear_item_theme 5 sample_world = set_item_theme 5 None sample_world"
    by (rule conjunct1[OF clear_item_theme_is_set_item_theme_None[of 5 sample_world]])
  show ?thesis
    using a b c by (simp add: first em s0 s5)
qed

text \<open>
  C9. \<open>go_live\<close> does not check the index: on the three-item service, index 99 is
  reported live when the host does not raise, and is reported with the host's message when
  it does; no exception leaves the handler. \<open>set_item_theme\<close> on the same index answers
  with the invalid-index result.
\<close>

theorem go_live_99_on_three_items:
  "length (service_items sample_world) = 3
   \<and> fst (go_live 99 sample_world) = Inr ()
   \<and> emitted (snd (go_live 99 sample_world)) = [Str ''Item 99 is now live'']
   \<and> emitted (snd (go_live 99 faulty_world)) = [Str ''Error going live: boom'']
   \<and> emitted (snd (set_item_theme 99 (Some ''Blue'') sample_world)) = [Str ''Invalid item index: 99'']"
  by (simp add: go_live_def set_item_theme_def sample_defs monad_defs str_int_def str_nat.simps)


lemma delete_theme_fst: "fst (delete_theme nm w) = Inr ()"
  unfolding delete_theme_def by (rule try_except_emit_fst)

lemma delete_theme_emits: "\<exists>s. emitted (snd (delete_theme nm w)) = emitted w @ [Str s]"
  by (simp add: delete_theme_def monad_defs theme_names_def Let_def split: option.splits)

lemma delete_theme_guard:
  "''theme_manager.delete_theme'' \<in> set (drop (length (calls w)) (calls (snd (delete_theme nm w))))
     \<or> themes (snd (delete_theme nm w)) \<noteq> themes w
   \<Longrightarrow> nm \<in> set (theme_names w) \<and> nm \<noteq> ''Default'' \<and> nm \<noteq> global_theme w"
  by (simp add: delete_theme_def monad_defs theme_names_def Let_def split: option.splits if_splits)

lemma delete_theme_refusal:
  "nm = ''Default'' \<or> nm = global_theme w \<Longrightarrow> fault (env w) = (\<lambda>tr. None) \<Longrightarrow>
   emitted (snd (delete_theme nm w)) = emitted w @
     [Str (if nm \<notin> set (theme_names w) then ''Theme '' @ quote nm @ '' not found''
           else if nm = ''Default'' then ''Cannot delete the default theme '' @ quote ''Default''
           else ''Cannot delete the global theme '' @ quote nm
                @ ''. Please set a different global theme first.'')]"
  by (auto simp add: delete_theme_def monad_defs theme_names_def Let_def)

text \<open>
  C8. \<open>delete_theme\<close> checks before it deletes. No exception leaves it and it signals one
  string. For the name \<open>Default\<close> or the name of the global theme the theme store is left
  as it was and the host's \<open>delete_theme\<close> is not called; when the host does not raise, the
  string is the refusal (not found, cannot delete the default theme, cannot delete the
  global theme). The host's \<open>delete_theme\<close> is called, and the store changed, only for a
  theme that exists, is not \<open>Default\<close> and is not the global theme.
\<close>

theorem delete_theme_validates_before_mutating:
  "fst (delete_theme theme_name w) = Inr ()
   \<and> (\<exists>s. emitted (snd (delete_theme theme_name w)) = emitted w @ [Str s])
   \<and> (theme_name = ''Default'' \<or> theme_name = global_theme w \<longrightarrow>
        themes (snd (delete_theme theme_name w)) = themes w
        \<and> ''theme_manager.delete_theme''
             \<notin> set (drop (length (calls w)) (calls (snd (delete_theme theme_name w)))))
   \<and> ((theme_name = ''Default'' \<or> theme_name = global_theme w) \<and> fault (env w) = (\<lambda>tr. None) \<longrightarrow>
        emitted (snd (delete_theme theme_name w)) = emitted w @
          [Str (if theme_name \<notin> set (theme_names w) then ''Theme '' @ quote theme_name @ '' not found''
                else if theme_name = ''Default'' then ''Cannot delete the default theme '' @ quote ''Default''
                else ''Cannot delete the global theme '' @ quote theme_name
                     @ ''. Please set a different global theme first.'')])
   \<and> (''theme_manager.delete_theme''
          \<in> set (drop (length (calls w)) (calls (snd (delete_theme theme_name w))))
        \<or> themes (snd (delete_theme theme_name w)) \<noteq> themes w \<longrightarrow>
        theme_name \<in> set (theme_names w) \<and> theme_name \<noteq> ''Default''
        \<and> theme_name \<noteq> global_theme w)"
  using delete_theme_fst[of theme_name w] delete_theme_emits[of theme_name w]
        delete_theme_guard[of w theme_name] delete_theme_refusal[of theme_name w]
  by blast

theorem delete_theme_witness:
  "themes (snd (delete_theme ''Default'' sample_world)) = themes sample_world
   \<and> emitted (snd (delete_theme ''Default'' sample_world))
       = [Str (''Cannot delete the default theme '' @ quote ''Default'')]
   \<and> themes (snd (delete_theme ''Blue'' sample_world)) = themes sample_world
   \<and> emitted (snd (delete_theme ''Blue'' sample_world))
       = [Str (''Cannot delete the global theme '' @ quote ''Blue''
               @ ''. Please set a different global theme first.'')]
   \<and> themes (snd (delete_theme ''Green'' sample_world)) = [(''Default'', []), (''Blue'', [])]
   \<and> ''Green'' \<in> set (theme_names sample_world) \<and> ''Green'' \<noteq> global_theme sample_world"
proof -
  have nf: "fault (env sample_world) = (\<lambda>tr. None)"
    and g: "global_theme sample_world = ''Blue''"
    and em: "emitted sample_world = []"
    and th: "themes sample_world = [(''Default'', []), (''Blue'', []), (''Green'', [])]"
    by (simp_all add: sample_defs)
  have nm: "theme_names sample_world = [''Default'', ''Blue'', ''Green'']"
    by (simp add: theme_names_def th)
  note d = delete_theme_validates_before_mutating[of "''Default''" sample_world]
  note b = delete_theme_validates_before_mutating[of "''Blue''" sample_world]
  note gr = delete_theme_validates_before_mutating[of "''Green''" sample_world]
  have d1: "themes (snd (delete_theme ''Default'' sample_world)) = themes sample_world"
    using d by simp
  have d2: "emitted (snd (delete_theme ''Default'' sample_world))
       = [Str (''Cannot delete the default theme '' @ quote ''Default'')]"
    using conjunct1[OF conjunct2[OF conjunct2[OF conjunct2[OF d]]]] nf by (simp add: nm em)
  have b1: "themes (snd (delete_theme ''Blue'' sample_world)) = themes sample_world"
    using b g by simp
  have b2: "emitted (snd (delete_theme ''Blue'' sample_world))
       = [Str (''Cannot delete the global theme '' @ quote ''Blue''
               @ ''. Please set a different global theme first.'')]"
    using conjunct1[OF conjunct2[OF conjunct2[OF conjunct2[OF b]]]] nf g by (simp add: nm em)
  have g1: "themes (snd (delete_theme ''Green'' sample_world)) = [(''Default'', []), (''Blue'', [])]"
    by (simp add: delete_theme_def monad_defs theme_names_def sample_defs)
  have g2: "''Green'' \<in> set (theme_names sample_world) \<and> ''Green'' \<noteq> global_theme sample_world"
    using conjunct2[OF conjunct2[OF conjunct2[OF conjunct2[OF gr]]]] g1 th by simp
  show ?thesis using d1 d2 b1 b2 g1 g2 by simp
qed

lemma get_service_items_cases:
  "emitted (snd (get_service_items w)) = emitted w @
     [case fault (env w) (calls w @ [''Registry.get(service_manager)'']) of
        Some m \<Rightarrow> Dicts [[(''error'', PStr m)]]
      | None \<Rightarrow>
         (case fault (env w) (calls w @ [''Registry.get(service_manager)'', ''service_manager.service_items'']) of
            Some m \<Rightarrow> Dicts [[(''error'', PStr m)]]
          | None \<Rightarrow> Dicts (map item_dict (service_items w)))]"
  by (simp add: get_service_items_def monad_defs Let_def split: option.splits)

lemma get_service_items_fst: "fst (get_service_items w) = Inr ()"
  unfolding get_service_items_def by (rule try_except_emit_fst)

text \<open>
  C7, as amended. \<open>get_service_items\<close> never raises and signals one list. When the
  service manager is read without a fault, the list has one record per service item, in
  the order of the service, each record with the fields \<open>title\<close>, \<open>type\<close>, \<open>plugin\<close> and
  \<open>order\<close>; on a fault the list has exactly one record, \<open>{error: message}\<close>.
\<close>

theorem get_service_items_result:
  "fst (get_service_items w) = Inr ()
   \<and> emitted (snd (get_service_items w)) = emitted w @
       [case fault (env w) (calls w @ [''Registry.get(service_manager)'']) of
          Some m \<Rightarrow> Dicts [[(''error'', PStr m)]]
        | None \<Rightarrow>
           (case fault (env w) (calls w @ [''Registry.get(service_manager)'',
                                          ''service_manager.service_items'']) of
              Some m \<Rightarrow> Dicts [[(''error'', PStr m)]]
            | None \<Rightarrow> Dicts (map item_dict (service_items w)))]
   \<and> length (map item_dict (service_items w)) = length (service_items w)
   \<and> (\<forall>i < length (service_items w).
         map item_dict (service_items w) ! i =
           [(''title'', PStr (item_title (entry_item (service_items w ! i)))),
            (''type'', PStr (item_type (entry_item (service_items w ! i)))),
            (''plugin'', PStr (item_name (entry_item (service_items w ! i)))),
            (''order'', PInt (entry_order (service_items w ! i)))])"
  using get_service_items_fst[of w] get_service_items_cases[of w]
  by (simp add: item_dict_def)

theorem get_service_items_witness:
  "emitted (snd (get_service_items sample_world)) =
     [Dicts [[(''title'', PStr ''Welcome''), (''type'', PStr ''ServiceItemType.Text''),
              (''plugin'', PStr ''custom''), (''order'', PInt 1)],
             [(''title'', PStr ''Reading''), (''type'', PStr ''ServiceItemType.Text''),
              (''plugin'', PStr ''custom''), (''order'', PInt 2)],
             [(''title'', PStr ''Notices''), (''type'', PStr ''ServiceItemType.Text''),
              (''plugin'', PStr ''custom''), (''order'', PInt 3)]]]
   \<and> map item_dict (service_items sample_world) ! 1 =
       [(''title'', PStr ''Reading''), (''type'', PStr ''ServiceItemType.Text''),
        (''plugin'', PStr ''custom''), (''order'', PInt 2)]"
proof -
  have nf: "fault (env sample_world) = (\<lambda>tr. None)"
    and em: "emitted sample_world = []"
    and it: "service_items sample_world =
        [sample_item ''Welcome'' 1, sample_item ''Reading'' 2, sample_item ''Notices'' 3]"
    by (simp_all add: sample_defs)
  note t = get_service_items_result[of sample_world]
  have a: "emitted (snd (get_service_items sample_world)) =
        [Dicts (map item_dict (service_items sample_world))]"
    using conjunct1[OF conjunct2[OF t]] by (simp add: nf em)
  have "(1::nat) < length (service_items sample_world)" by (simp add: it)
  with conjunct2[OF conjunct2[OF conjunct2[OF t]]]
  have b: "map item_dict (service_items sample_world) ! 1 =
           [(''title'', PStr (item_title (entry_item (service_items sample_world ! 1)))),
            (''type'', PStr (item_type (entry_item (service_items sample_world ! 1)))),
            (''plugin'', PStr (item_name (entry_item (service_items sample_world ! 1)))),
            (''order'', PInt (entry_order (service_items sample_world ! 1)))]"
    by blast
  show ?thesis
    using a b by (simp add: it item_dict_def sample_item_def)
qed

text \<open>
  C7 as stated fails: on a fault the list signalled is not empty, and the records of a
  service have no field \<open>source\<close>.
\<close>

theorem get_service_items_counterexample:
  "emitted (snd (get_service_items faulty_world)) = [Dicts [[(''error'', PStr ''boom'')]]]
   \<and> emitted (snd (get_service_items faulty_world)) \<noteq> [Dicts []]
   \<and> emitted (snd (get_service_items (sample_world\<lparr>service_items := [sample_item ''Welcome'' 1]\<rparr>)))
       = [Dicts [[(''title'', PStr ''Welcome''), (''type'', PStr ''ServiceItemType.Text''),
                  (''plugin'', PStr ''custom''), (''order'', PInt 1)]]]
   \<and> ''source'' \<notin> set (map fst (item_dict (sample_item ''Welcome'' 1)))"
  by (simp add: get_service_items_def monad_defs sample_defs item_dict_def)


end
